theory Spec2Isabelle
  imports Complex_Main "HOL-Library.Sublist"
begin

section \<open>JavaScript strings\<close>

text \<open>
  A JavaScript string is a sequence of UTF-16 code units; a code unit is modelled as a
  natural number. String literals of the source are written \<open>str ''...''\<close>.
\<close>

type_synonym jsstring = "nat list"

definition str :: "string \<Rightarrow> jsstring" where
  "str s = map of_char s"

text \<open>
  The class \<open>\s\<close> of regular expressions, which is also the set that
  \<open>String.prototype.trim\<close> strips: ECMAScript's WhiteSpace and LineTerminator
  code points (TAB, LF, VT, FF, CR, SP, NBSP, the Unicode space separators, LS, PS, BOM).
\<close>

definition isWhiteSpace :: "nat \<Rightarrow> bool" where
  "isWhiteSpace c =
     (c = 0x9 \<or> c = 0xA \<or> c = 0xB \<or> c = 0xC \<or> c = 0xD \<or> c = 0x20 \<or> c = 0xA0 \<or>
      c = 0x1680 \<or> (0x2000 \<le> c \<and> c \<le> 0x200A) \<or> c = 0x2028 \<or> c = 0x2029 \<or>
      c = 0x202F \<or> c = 0x205F \<or> c = 0x3000 \<or> c = 0xFEFF)"

text \<open>
  \<open>s.replace(/^\s+|\s+$/g, '')\<close>: the scan removes the run of white space at the
  start, then copies code units until it stands at a run of white space that reaches the
  end of the string, which it removes.
\<close>

fun dropTrailingWs :: "jsstring \<Rightarrow> jsstring" where
  "dropTrailingWs [] = []"
| "dropTrailingWs (c # cs) =
     (if list_all isWhiteSpace (c # cs) then [] else c # dropTrailingWs cs)"

definition stripEnds :: "jsstring \<Rightarrow> jsstring" where
  "stripEnds s = dropTrailingWs (dropWhile isWhiteSpace s)"

text \<open>\<open>String.prototype.trim\<close> removes the same code units at both ends.\<close>

definition trim :: "jsstring \<Rightarrow> jsstring" where
  "trim s = dropTrailingWs (dropWhile isWhiteSpace s)"

text \<open>
  \<open>String.prototype.toLowerCase\<close> on the Basic Latin letters; the case mappings of
  code units outside A-Z belong to the Unicode tables of the host and are left out
  (such a code unit is returned as it is).
\<close>

definition toLowerCase :: "jsstring \<Rightarrow> jsstring" where
  "toLowerCase s = map (\<lambda>c. if 0x41 \<le> c \<and> c \<le> 0x5A then c + 0x20 else c) s"

text \<open>\<open>s.includes(t)\<close>: \<open>t\<close> occurs in \<open>s\<close> as a contiguous substring.\<close>

fun str_includes :: "jsstring \<Rightarrow> jsstring \<Rightarrow> bool" where
  "str_includes [] t = (t = [])"
| "str_includes (c # cs) t = (prefix t (c # cs) \<or> str_includes cs t)"

text \<open>
  \<open>x || d\<close> for a string \<open>x\<close> that may be \<open>null\<close> or \<open>undefined\<close>: the
  empty string is falsy as well.
\<close>

fun orElse :: "jsstring option \<Rightarrow> jsstring \<Rightarrow> jsstring" where
  "orElse None d = d"
| "orElse (Some s) d = (if s = [] then d else s)"

section \<open>Regular expressions\<close>

text \<open>
  The regular expressions of the source are sequences of character classes, each under a
  greedy quantifier \<open>{lo,hi}\<close> (\<open>hi = None\<close> for no upper bound; a plain character or
  class is \<open>{1,1}\<close>, \<open>?\<close> is \<open>{0,1}\<close>, \<open>+\<close> is \<open>{1,}\<close>, \<open>*\<close> is
  \<open>{0,}\<close>). \<open>matchHere\<close> is the backtracking matcher anchored at the start of
  the text: an item first tries to take one more code unit and to match the rest of the
  pattern after it, and only when that fails stops where it is. The result is the text
  matched by each item. \<open>search\<close> tries the start positions from left to right, as
  \<open>String.prototype.match\<close> does for a pattern without the \<open>g\<close> flag.
\<close>

datatype item = Rep "nat \<Rightarrow> bool" nat "nat option"

function matchHere :: "item list \<Rightarrow> jsstring \<Rightarrow> jsstring list option" where
  "matchHere [] s = Some []"
| "matchHere (Rep p lo hi # rs) [] =
     (if lo = 0 then map_option (\<lambda>ms. [] # ms) (matchHere rs []) else None)"
| "matchHere (Rep p lo hi # rs) (c # cs) =
     (case (if p c \<and> hi \<noteq> Some 0 then
              (case matchHere (Rep p (lo - 1) (map_option (\<lambda>h. h - 1) hi) # rs) cs of
                 Some (m # ms) \<Rightarrow> Some ((c # m) # ms)
               | _ \<Rightarrow> None)
            else None) of
        Some r \<Rightarrow> Some r
      | None \<Rightarrow> if lo = 0 then map_option (\<lambda>ms. [] # ms) (matchHere rs (c # cs)) else None)"
  by pat_completeness auto
termination
  by (relation "measure (\<lambda>(rs, s). length rs + length s)") auto

fun search :: "item list \<Rightarrow> jsstring \<Rightarrow> jsstring list option" where
  "search rs [] = matchHere rs []"
| "search rs (c # cs) =
     (case matchHere rs (c # cs) of Some ms \<Rightarrow> Some ms | None \<Rightarrow> search rs cs)"

text \<open>Character classes: \<open>\d\<close>, \<open>\w\<close>, a single character, \<open>[\/\-]\<close>.\<close>

definition isDigit :: "nat \<Rightarrow> bool" where
  "isDigit c = (0x30 \<le> c \<and> c \<le> 0x39)"

definition isWordChar :: "nat \<Rightarrow> bool" where
  "isWordChar c =
     (isDigit c \<or> (0x41 \<le> c \<and> c \<le> 0x5A) \<or> (0x61 \<le> c \<and> c \<le> 0x7A) \<or> c = 0x5F)"

definition chr :: "nat \<Rightarrow> nat \<Rightarrow> bool" where
  "chr k c = (c = k)"

definition isSlashOrDash :: "nat \<Rightarrow> bool" where
  "isSlashOrDash c = (c = 0x2F \<or> c = 0x2D)"

section \<open>Numbers and dates of the host\<close>

text \<open>
  A JavaScript number is a binary64 floating-point value: a rational that the format
  represents, \<open>NaN\<close> or an infinity (the sign of zero is not kept). The result of
  an operation is the exact result rounded to the nearest representable value, ties to the
  even significand, and an infinity when the rounded value reaches \<open>2^1024\<close>.

  \<open>bitLength n\<close> is the number of binary digits of \<open>n\<close>, \<open>ilog2 x\<close> the
  exponent of the positive rational \<open>x\<close> (the integer \<open>e\<close> with
  \<open>2^e \<le> x < 2^(e+1)\<close>), and \<open>round64 x\<close> the number nearest to \<open>x\<close>:
  the significand has 53 binary digits, the exponent is at least \<open>-1022\<close> (below that
  the values are the multiples of \<open>2^-1074\<close>).
\<close>

datatype number = Num rat | NaN | PosInfinity | NegInfinity

fun bitLength :: "nat \<Rightarrow> nat" where
  "bitLength n = (if n = 0 then 0 else Suc (bitLength (n div 2)))"

declare bitLength.simps [simp del]

definition pow2 :: "int \<Rightarrow> rat" where
  "pow2 e = (if 0 \<le> e then 2 ^ nat e else 1 / 2 ^ nat (- e))"

definition ilog2 :: "rat \<Rightarrow> int" where
  "ilog2 x =
     (if 1 \<le> x then int (bitLength (nat \<lfloor>x\<rfloor>)) - 1
      else - int (bitLength (nat (\<lceil>1 / x\<rceil> - 1))))"

definition roundHalfEven :: "rat \<Rightarrow> int" where
  "roundHalfEven y =
     (let f = \<lfloor>y\<rfloor>; r = y - of_int f
      in if r < 1 / 2 then f else if 1 / 2 < r then f + 1 else if even f then f else f + 1)"

definition round64 :: "rat \<Rightarrow> number" where
  "round64 x =
     (if x = 0 then Num 0
      else
        (let a = \<bar>x\<bar>;
             e = max (ilog2 a) (- 1022);
             overflow = (if 0 < x then PosInfinity else NegInfinity)
         in if 1024 \<le> e then overflow
            else
              (let n = roundHalfEven (a / pow2 (e - 52))
               in if e = 1023 \<and> n = 2 ^ 53 then overflow
                  else Num ((if 0 < x then 1 else - 1) * of_int n * pow2 (e - 52)))))"

fun numGreater :: "number \<Rightarrow> number \<Rightarrow> bool" where
  "numGreater (Num a) (Num b) = (a > b)"
| "numGreater NaN _ = False"
| "numGreater _ NaN = False"
| "numGreater PosInfinity PosInfinity = False"
| "numGreater PosInfinity _ = True"
| "numGreater _ PosInfinity = False"
| "numGreater NegInfinity _ = False"
| "numGreater _ NegInfinity = True"

fun numDivide :: "number \<Rightarrow> number \<Rightarrow> number" where
  "numDivide (Num a) (Num b) =
     (if b = 0 then (if a = 0 then NaN else if a > 0 then PosInfinity else NegInfinity)
      else round64 (a / b))"
| "numDivide NaN _ = NaN"
| "numDivide _ NaN = NaN"
| "numDivide (Num a) _ = Num 0"
| "numDivide PosInfinity (Num b) = (if b < 0 then NegInfinity else PosInfinity)"
| "numDivide NegInfinity (Num b) = (if b < 0 then PosInfinity else NegInfinity)"
| "numDivide _ _ = NaN"

fun numTimes :: "number \<Rightarrow> number \<Rightarrow> number" where
  "numTimes (Num a) (Num b) = round64 (a * b)"
| "numTimes NaN _ = NaN"
| "numTimes _ NaN = NaN"
| "numTimes (Num a) PosInfinity =
     (if a = 0 then NaN else if a > 0 then PosInfinity else NegInfinity)"
| "numTimes (Num a) NegInfinity =
     (if a = 0 then NaN else if a > 0 then NegInfinity else PosInfinity)"
| "numTimes PosInfinity (Num b) =
     (if b = 0 then NaN else if b > 0 then PosInfinity else NegInfinity)"
| "numTimes NegInfinity (Num b) =
     (if b = 0 then NaN else if b > 0 then NegInfinity else PosInfinity)"
| "numTimes PosInfinity PosInfinity = PosInfinity"
| "numTimes NegInfinity NegInfinity = PosInfinity"
| "numTimes _ _ = NegInfinity"

text \<open>The value of a string of decimal digits.\<close>

definition digitsValue :: "jsstring \<Rightarrow> nat" where
  "digitsValue ds = foldl (\<lambda>a c. 10 * a + (c - 0x30)) 0 ds"

text \<open>
  \<open>parseFloat\<close> on the decimal literals the source passes to it (captures of
  \<open>\d+\.?\d*\<close>): leading white space, digits, an optional point and digits; the
  result is the number nearest to the value of the literal. A text with no digit at that
  place is \<open>NaN\<close>. Signs, exponents and the literal \<open>Infinity\<close> are left out.
\<close>

definition parseFloat :: "jsstring \<Rightarrow> number" where
  "parseFloat s =
     (let t = dropWhile isWhiteSpace s;
          ip = takeWhile isDigit t;
          r = dropWhile isDigit t;
          fp = (case r of [] \<Rightarrow> [] | c # f \<Rightarrow> if c = 0x2E then takeWhile isDigit f else [])
      in if ip = [] \<and> fp = [] then NaN
         else round64 (of_nat (digitsValue ip) + of_nat (digitsValue fp) / 10 ^ length fp))"

text \<open>\<open>parseInt(s, 10)\<close> on a capture of \<open>\d+\<close>.\<close>

definition parseInt :: "jsstring \<Rightarrow> number" where
  "parseInt s =
     (let ds = takeWhile isDigit (dropWhile isWhiteSpace s)
      in if ds = [] then NaN else round64 (of_nat (digitsValue ds)))"

text \<open>
  A \<open>Date\<close> object holds a time value: milliseconds since the epoch, or \<open>NaN\<close>
  (\<open>None\<close>) for an invalid date. The constructor \<open>new Date(text)\<close> belongs to the
  host; its reading of text other than the ISO format is left to the implementation by
  ECMAScript, so the functions that call it take it as the parameter \<open>newDate\<close>.
\<close>

datatype date = Date (getTime: "int option")

section \<open>Field normalizers (extractors.ts)\<close>

subsection \<open>cleanText\<close>

text \<open>
  \<open>s.replace(/\s+/g, ' ')\<close>: every maximal run of white space becomes one space
  (U+0020).
\<close>

function collapseWs :: "jsstring \<Rightarrow> jsstring" where
  "collapseWs [] = []"
| "collapseWs (c # cs) =
     (if isWhiteSpace c then 0x20 # collapseWs (dropWhile isWhiteSpace cs)
      else c # collapseWs cs)"
  by pat_completeness auto
termination
  by (relation "measure length") (auto simp: length_dropWhile_le less_Suc_eq_le)

text \<open>\<open>s.replace(/\n/g, ' ')\<close>\<close>

definition newlinesToSpaces :: "jsstring \<Rightarrow> jsstring" where
  "newlinesToSpaces s = map (\<lambda>c. if c = 0xA then 0x20 else c) s"

definition cleanText :: "jsstring \<Rightarrow> jsstring" where
  "cleanText text = trim (newlinesToSpaces (stripEnds (collapseWs text)))"

text \<open>
  The wording of the specification, as a second definition: the words of a text are its
  maximal runs of code units that are not white space, and the cleaned text is the words
  joined by single spaces.
\<close>

function wordsOf :: "jsstring \<Rightarrow> jsstring list" where
  "wordsOf s =
     (let t = dropWhile isWhiteSpace s in
      if t = [] then []
      else takeWhile (\<lambda>c. \<not> isWhiteSpace c) t # wordsOf (dropWhile (\<lambda>c. \<not> isWhiteSpace c) t))"
  by pat_completeness auto
termination
proof (relation "measure length")
  fix s t :: jsstring
  assume t: "t = dropWhile isWhiteSpace s" and ne: "t \<noteq> []"
  from ne obtain c cs where tc: "t = c # cs" by (cases t) auto
  have "\<not> isWhiteSpace c" using t tc by (metis dropWhile_eq_Cons_conv)
  then have "length (dropWhile (\<lambda>c. \<not> isWhiteSpace c) t) \<le> length cs"
    using tc by (simp add: length_dropWhile_le)
  moreover have "length t \<le> length s" using t by (simp add: length_dropWhile_le)
  ultimately show "(dropWhile (\<lambda>c. \<not> isWhiteSpace c) t, s) \<in> measure length"
    using tc by simp
qed simp

fun joinWithSpace :: "jsstring list \<Rightarrow> jsstring" where
  "joinWithSpace [] = []"
| "joinWithSpace [w] = w"
| "joinWithSpace (w # v # ws) = w @ 0x20 # joinWithSpace (v # ws)"

declare wordsOf.simps [simp del]

text \<open>
  The shape of a cleaned text: every white-space code unit in it is U+0020 and is followed
  by a code unit that is not white space (\<open>singleSpaces\<close>), and the text neither
  starts nor ends with white space (\<open>noEdgeWs\<close>). \<open>goodWords\<close> holds of
  a list of non-empty words free of white space.
\<close>

fun singleSpaces :: "jsstring \<Rightarrow> bool" where
  "singleSpaces [] = True"
| "singleSpaces (c # cs) =
     ((if isWhiteSpace c then c = 0x20 \<and> (case cs of [] \<Rightarrow> True | d # _ \<Rightarrow> \<not> isWhiteSpace d) else True)
      \<and> singleSpaces cs)"

definition noEdgeWs :: "jsstring \<Rightarrow> bool" where
  "noEdgeWs s = (case s of [] \<Rightarrow> True | c # cs \<Rightarrow> \<not> isWhiteSpace c \<and> \<not> isWhiteSpace (last s))"

definition goodWords :: "jsstring list \<Rightarrow> bool" where
  "goodWords ws = list_all (\<lambda>w. w \<noteq> [] \<and> list_all (\<lambda>c. \<not> isWhiteSpace c) w) ws"

subsection \<open>parseDate\<close>

text \<open>
  The four patterns, in the order of the source: \<open>\d{1,2}[\/\-]\d{1,2}[\/\-]\d{2,4}\<close>,
  \<open>\w+ \d{1,2}, \d{4}\<close>, \<open>\d{4}-\d{2}-\d{2}\<close> and \<open>\d{1,2} \w+ \d{4}\<close>. In each the
  capture group is the whole pattern, so \<open>match[1]\<close> is the concatenation of the
  pieces.
\<close>

definition datePatterns :: "item list list" where
  "datePatterns =
     [[Rep isDigit 1 (Some 2), Rep isSlashOrDash 1 (Some 1), Rep isDigit 1 (Some 2),
       Rep isSlashOrDash 1 (Some 1), Rep isDigit 2 (Some 4)],
      [Rep isWordChar 1 None, Rep (chr 0x20) 1 (Some 1), Rep isDigit 1 (Some 2),
       Rep (chr 0x2C) 1 (Some 1), Rep (chr 0x20) 1 (Some 1), Rep isDigit 4 (Some 4)],
      [Rep isDigit 4 (Some 4), Rep (chr 0x2D) 1 (Some 1), Rep isDigit 2 (Some 2),
       Rep (chr 0x2D) 1 (Some 1), Rep isDigit 2 (Some 2)],
      [Rep isDigit 1 (Some 2), Rep (chr 0x20) 1 (Some 1), Rep isWordChar 1 None,
       Rep (chr 0x20) 1 (Some 1), Rep isDigit 4 (Some 4)]]"

text \<open>The loop over the patterns: the first match that the constructor accepts is returned.\<close>

fun tryPatterns :: "(jsstring \<Rightarrow> date) \<Rightarrow> item list list \<Rightarrow> jsstring \<Rightarrow> date option" where
  "tryPatterns newDate [] dateText = None"
| "tryPatterns newDate (pattern # patterns) dateText =
     (case search pattern dateText of
        Some ms \<Rightarrow>
          (let parsed = newDate (concat ms)
           in if getTime parsed \<noteq> None then Some parsed
              else tryPatterns newDate patterns dateText)
      | None \<Rightarrow> tryPatterns newDate patterns dateText)"

definition parseDate :: "(jsstring \<Rightarrow> date) \<Rightarrow> jsstring \<Rightarrow> date option" where
  "parseDate newDate dateText =
     (if dateText = [] then None else tryPatterns newDate datePatterns dateText)"

text \<open>
  The constructor of the V8 engine, which runs the package, on the texts made of three
  groups of one to four digits separated by a slash or a dash; these are all the texts that
  the first and the third pattern of \<open>parseDate\<close> hand to it.

  \<^item> \<open>YYYY-MM-DD\<close> with a month from 1 to 12 and a day from 1 to 31 is read as an ISO
    date, at midnight UTC.
  \<^item> Any other text of that shape is read by the legacy parser: the three numbers are month,
    day and year when the first is from 1 to 31, and year, month and day otherwise; a year
    from 0 to 49 is counted from 2000 and one from 50 to 99 from 1900; the month must be
    from 1 to 12 and the day from 1 to 31, else the date is invalid. The date is at midnight
    local time; \<open>localToUTC\<close> is the host's conversion of a local time to UTC.
  \<^item> In both cases the day is counted on from the first of the month (\<open>MakeDay\<close>), so a
    day past the end of the month falls into the next month.

  Every other text (month names, times, longer numbers) is handed to \<open>other\<close>, the
  rest of the host's constructor. \<open>daysFromCivil\<close> counts the days from 1 January 1970
  to a day of the proleptic Gregorian calendar.
\<close>

definition daysFromCivil :: "int \<Rightarrow> int \<Rightarrow> int \<Rightarrow> int" where
  "daysFromCivil y m d =
     (let y' = (if m \<le> 2 then y - 1 else y);
          era = y' div 400;
          yoe = y' - era * 400;
          mp = (m + 9) mod 12;
          doy = (153 * mp + 2) div 5 + d - 1;
          doe = yoe * 365 + yoe div 4 - yoe div 100 + doy
      in era * 146097 + doe - 719468)"

definition makeDate :: "int \<Rightarrow> int \<Rightarrow> int \<Rightarrow> int" where
  "makeDate year month day = (daysFromCivil year month 1 + day - 1) * 86400000"

definition isMonth :: "int \<Rightarrow> bool" where
  "isMonth x = (1 \<le> x \<and> x \<le> 12)"

definition isDay :: "int \<Rightarrow> bool" where
  "isDay x = (1 \<le> x \<and> x \<le> 31)"

definition legacyYear :: "int \<Rightarrow> int" where
  "legacyYear year =
     (if 0 \<le> year \<and> year \<le> 49 then year + 2000
      else if 50 \<le> year \<and> year \<le> 99 then year + 1900
      else year)"

definition numericDatePattern :: "item list" where
  "numericDatePattern =
     [Rep isDigit 1 (Some 4), Rep isSlashOrDash 1 (Some 1), Rep isDigit 1 (Some 4),
      Rep isSlashOrDash 1 (Some 1), Rep isDigit 1 (Some 4)]"

definition v8Date :: "(int \<Rightarrow> int) \<Rightarrow> (jsstring \<Rightarrow> date) \<Rightarrow> jsstring \<Rightarrow> date" where
  "v8Date localToUTC other s =
     (case matchHere numericDatePattern s of
        Some [a, sep1, b, sep2, c] \<Rightarrow>
          if length (concat [a, sep1, b, sep2, c]) = length s then
            (let n1 = int (digitsValue a); n2 = int (digitsValue b); n3 = int (digitsValue c)
             in if length a = 4 \<and> sep1 = [0x2D] \<and> length b = 2 \<and> sep2 = [0x2D] \<and> length c = 2 \<and>
                   isMonth n2 \<and> isDay n3
                then Date (Some (makeDate n1 n2 n3))
                else
                  (let (year, month, day) = (if isDay n1 then (n3, n1, n2) else (n1, n2, n3))
                   in if isMonth month \<and> isDay day
                      then Date (Some (localToUTC (makeDate (legacyYear year) month day)))
                      else Date None))
          else other s
      | _ \<Rightarrow> other s)"

text \<open>
  The constructor of a host in the UTC time zone that rejects every text of another shape,
  used where a closed example needs a constructor.
\<close>

definition utcDate :: "jsstring \<Rightarrow> date" where
  "utcDate = v8Date (\<lambda>t. t) (\<lambda>s. Date None)"

section \<open>Elements of the page\<close>

text \<open>
  The callbacks passed to \<open>element.evaluate\<close> read an element through
  \<open>querySelector\<close>, \<open>textContent\<close>, \<open>href\<close>, \<open>src\<close>,
  \<open>className\<close> and \<open>style.width\<close>; an element is modelled by what these
  return. \<open>href\<close> and \<open>src\<close> are \<open>None\<close> on an element that has no such
  property. An element handle is attached to its element, or detached: then
  \<open>evaluate\<close> rejects with an error.
\<close>

datatype element = Element
  (textContent: "jsstring option")
  (href: "jsstring option")
  (src: "jsstring option")
  (className: jsstring)
  (styleWidth: jsstring)
  (querySelector: "jsstring \<Rightarrow> element option")

datatype error = Error (message: jsstring)

datatype elementHandle = Attached element | Detached error

text \<open>\<open>e?.textContent?.trim()\<close>, and \<open>x || null\<close>.\<close>

definition optText :: "element option \<Rightarrow> jsstring option" where
  "optText e = (case e of None \<Rightarrow> None | Some x \<Rightarrow> map_option trim (textContent x))"

fun orNull :: "jsstring option \<Rightarrow> jsstring option" where
  "orNull None = None"
| "orNull (Some s) = (if s = [] then None else Some s)"

text \<open>\<open>s.split(k)\<close> for a separator of one code unit.\<close>

fun splitOn :: "nat \<Rightarrow> jsstring \<Rightarrow> jsstring list" where
  "splitOn k [] = [[]]"
| "splitOn k (c # cs) =
     (if c = k then [] # splitOn k cs
      else (case splitOn k cs of [] \<Rightarrow> [[c]] | p # ps \<Rightarrow> (c # p) # ps))"

text \<open>
  The patterns of the extractors: \<open>id=(\d+)\<close>, \<open>(\d+\.?\d*)\<close>, \<open>(\d+)%\<close> and the
  date pattern \<open>(\d{1,2}[\/\-]\d{1,2}[\/\-]\d{2,4})\<close>.
\<close>

definition idPattern :: "item list" where
  "idPattern = [Rep (chr 0x69) 1 (Some 1), Rep (chr 0x64) 1 (Some 1), Rep (chr 0x3D) 1 (Some 1),
                Rep isDigit 1 None]"

definition numberPattern :: "item list" where
  "numberPattern = [Rep isDigit 1 None, Rep (chr 0x2E) 0 (Some 1), Rep isDigit 0 None]"

definition percentPattern :: "item list" where
  "percentPattern = [Rep isDigit 1 None, Rep (chr 0x25) 1 (Some 1)]"

definition slashDatePattern :: "item list" where
  "slashDatePattern =
     [Rep isDigit 1 (Some 2), Rep isSlashOrDash 1 (Some 1), Rep isDigit 1 (Some 2),
      Rep isSlashOrDash 1 (Some 1), Rep isDigit 2 (Some 4)]"

text \<open>\<open>url.match(/id=(\d+)/)?.[1]\<close> and \<open>text.match(/(\d+)%/)\<close> with its group.\<close>

definition matchId :: "jsstring \<Rightarrow> jsstring option" where
  "matchId url = (case search idPattern url of Some [_, _, _, ds] \<Rightarrow> Some ds | _ \<Rightarrow> None)"

definition matchPercent :: "jsstring \<Rightarrow> jsstring option" where
  "matchPercent t = (case search percentPattern t of Some [ds, _] \<Rightarrow> Some ds | _ \<Rightarrow> None)"

text \<open>
  \<open>text.match(/(\d+\.?\d*)[\s\/]*(\d+\.?\d*)?/)\<close>: once the first number has matched,
  every later part of the pattern is optional, so no backtracking takes place: the first
  group is the first number of the text, the separators are skipped, and the second group
  is the number that stands there, if one does.
\<close>

fun searchRest :: "item list \<Rightarrow> jsstring \<Rightarrow> (jsstring list \<times> jsstring) option" where
  "searchRest rs [] = map_option (\<lambda>ms. (ms, [])) (matchHere rs [])"
| "searchRest rs (c # cs) =
     (case matchHere rs (c # cs) of
        Some ms \<Rightarrow> Some (ms, drop (length (concat ms)) (c # cs))
      | None \<Rightarrow> searchRest rs cs)"

definition matchGradePair :: "jsstring \<Rightarrow> (jsstring \<times> jsstring option) option" where
  "matchGradePair t =
     (case searchRest numberPattern t of
        None \<Rightarrow> None
      | Some (ms, rest) \<Rightarrow>
          Some (concat ms,
                map_option concat
                  (matchHere numberPattern
                     (dropWhile (\<lambda>c. isWhiteSpace c \<or> c = 0x2F) rest))))"

section \<open>Records (types.ts)\<close>

datatype submissionStatus = submitted | not_submitted | late

record assignment =
  a_id :: jsstring
  a_title :: jsstring
  a_description :: jsstring
  a_dueDate :: "date option"
  a_submissionStatus :: submissionStatus
  a_maxGrade :: number
  a_currentGrade :: "number option"
  a_url :: jsstring

text \<open>
  \<open>itemName\<close> is declared a string; \<open>extractGrade\<close> stores \<open>null\<close> in it, so the
  field is optional here.
\<close>

record grade =
  g_itemName :: "jsstring option"
  g_grade :: jsstring
  g_maxGrade :: jsstring
  g_percentage :: "number option"
  g_feedback :: "jsstring option"
  g_dateModified :: "date option"

record moodleFile =
  f_name :: jsstring
  f_url :: jsstring
  f_size :: jsstring
  f_type :: jsstring
  f_downloadUrl :: jsstring

record zybookIntegration =
  z_title :: jsstring
  z_url :: jsstring
  z_dueDate :: "date option"
  z_completionStatus :: jsstring
  z_progress :: "number option"

section \<open>Record extractors (extractors.ts)\<close>

text \<open>
  The due date of \<open>extractAssignment\<close> and \<open>extractZybookIntegration\<close>: the first
  slash or dash date of the element's text, if the constructor accepts it. The callback
  hands the date over as an ISO string and the caller builds the \<open>Date\<close> again from
  it, which gives the same time value.
\<close>

definition dueDateOf :: "(jsstring \<Rightarrow> date) \<Rightarrow> element option \<Rightarrow> date option" where
  "dueDateOf newDate dueDateElement =
     (case dueDateElement of
        None \<Rightarrow> None
      | Some e \<Rightarrow>
          (case orNull (map_option trim (textContent e)) of
             None \<Rightarrow> None
           | Some dueDateText \<Rightarrow>
               (case search slashDatePattern dueDateText of
                  None \<Rightarrow> None
                | Some ms \<Rightarrow>
                    (let parsed = newDate (concat ms)
                     in if getTime parsed \<noteq> None then Some parsed else None))))"

definition statusOf :: "element option \<Rightarrow> submissionStatus" where
  "statusOf statusElement =
     (case statusElement of
        None \<Rightarrow> not_submitted
      | Some e \<Rightarrow>
          (let statusText = orElse (map_option toLowerCase (textContent e)) []
           in if str_includes statusText (str ''submitted'') \<or>
                 str_includes statusText (str ''complete'') then submitted
              else if str_includes statusText (str ''late'') \<or>
                      str_includes statusText (str ''overdue'') then late
              else not_submitted))"

text \<open>
  \<open>random\<close> stands for the text of \<open>Math.random().toString()\<close>, used as the id
  when the URL carries none.
\<close>

definition extractAssignment ::
    "(jsstring \<Rightarrow> date) \<Rightarrow> jsstring \<Rightarrow> elementHandle \<Rightarrow> assignment option" where
  "extractAssignment newDate random element =
     (case element of
        Detached error \<Rightarrow> None
      | Attached el \<Rightarrow>
          (let titleElement =
                 querySelector el (str ''.instancename, .activity-name, h3, .assignment-title'');
               linkElement =
                 (case querySelector el (str ''a[href*=\"assign\"]'') of
                    Some l \<Rightarrow> l | None \<Rightarrow> el);
               title = orElse (optText titleElement) (str ''Unknown Assignment'');
               url = orElse (href linkElement) [];
               id = (case matchId url of Some ds \<Rightarrow> ds | None \<Rightarrow> random);
               dueDate = dueDateOf newDate
                 (querySelector el (str ''.due-date, .duedate, .assignment-due, [class*=\"due\"]''));
               submissionStatus = statusOf
                 (querySelector el (str ''.status, .submission-status, [class*=\"status\"]''));
               description = orElse
                 (optText (querySelector el (str ''.assignment-description, .description, .summary'')))
                 [];
               gradeElement = querySelector el (str ''.grade, .points, .score'');
               gradeMatch =
                 (case gradeElement of
                    None \<Rightarrow> None
                  | Some g \<Rightarrow> matchGradePair (orElse (optText gradeElement) []));
               currentGrade =
                 (case gradeMatch of None \<Rightarrow> None | Some (g1, g2) \<Rightarrow> Some (parseFloat g1));
               maxGrade =
                 (case gradeMatch of
                    None \<Rightarrow> Num 0
                  | Some (g1, None) \<Rightarrow> Num 100
                  | Some (g1, Some g2) \<Rightarrow> parseFloat g2)
           in Some \<lparr>a_id = id, a_title = title, a_description = description, a_dueDate = dueDate,
                     a_submissionStatus = submissionStatus, a_maxGrade = maxGrade,
                     a_currentGrade = currentGrade, a_url = url\<rparr>))"

text \<open>
  \<open>percentageOf fallback\<close> is the ratio of both extractors of grades; they differ in
  the value used when the denominator is not positive.
\<close>

definition percentageOf :: "number option \<Rightarrow> jsstring \<Rightarrow> jsstring \<Rightarrow> number option" where
  "percentageOf fallback gradeText maxGradeText =
     (let gradeMatch = search numberPattern gradeText;
          maxGradeMatch = search numberPattern maxGradeText;
          gradeValue = (case gradeMatch of Some ms \<Rightarrow> parseFloat (concat ms) | None \<Rightarrow> Num 0);
          maxGradeValue =
            (case maxGradeMatch of Some ms \<Rightarrow> parseFloat (concat ms) | None \<Rightarrow> Num 100)
      in if numGreater maxGradeValue (Num 0)
         then Some (numTimes (numDivide gradeValue maxGradeValue) (Num 100))
         else fallback)"

definition extractGrade :: "(jsstring \<Rightarrow> date) \<Rightarrow> elementHandle \<Rightarrow> grade option" where
  "extractGrade newDate element =
     (case element of
        Detached error \<Rightarrow> None
      | Attached el \<Rightarrow>
          (let itemName = orNull (optText
                 (querySelector el (str ''.gradeitemheader, .item-name, .gradeitem, td:first-child'')));
               gradeText = orElse
                 (optText (querySelector el (str ''.grade, .points, .percentage, .finalgrade'')))
                 (str ''0'');
               maxGradeText = orElse
                 (optText (querySelector el (str ''.max-grade, .total-points, .out-of'')))
                 (str ''0'');
               percentage = percentageOf (Some (Num 0)) gradeText maxGradeText;
               feedback = orNull (optText
                 (querySelector el (str ''.feedback, .comment, .grade-feedback'')));
               dateModified =
                 (case orNull (optText (querySelector el
                          (str ''.date-modified, .last-modified, .timestamp, .grade-date''))) of
                    None \<Rightarrow> None
                  | Some dateText \<Rightarrow>
                      (let parsed = newDate dateText
                       in if getTime parsed \<noteq> None then Some parsed else None))
           in Some \<lparr>g_itemName = itemName, g_grade = gradeText, g_maxGrade = maxGradeText,
                     g_percentage = percentage, g_feedback = feedback,
                     g_dateModified = dateModified\<rparr>))"

text \<open>The type named by an icon's source or class, or the type found so far.\<close>

definition iconType :: "jsstring \<Rightarrow> jsstring \<Rightarrow> jsstring \<Rightarrow> jsstring" where
  "iconType iconSrc iconClass type =
     (let has = (\<lambda>w. str_includes iconSrc w \<or> str_includes iconClass w)
      in if has (str ''pdf'') then str ''pdf''
         else if has (str ''document'') then str ''document''
         else if has (str ''spreadsheet'') then str ''spreadsheet''
         else if has (str ''presentation'') then str ''presentation''
         else if has (str ''image'') then str ''image''
         else if has (str ''video'') then str ''video''
         else if has (str ''audio'') then str ''audio''
         else type)"

text \<open>
  The type of a file, from the text of its type element, its URL and its icon: the text
  after the last point of the URL when the type element gives nothing, then the icon when
  the type is still unknown.
\<close>

definition fileTypeOf :: "jsstring \<Rightarrow> jsstring \<Rightarrow> element option \<Rightarrow> jsstring" where
  "fileTypeOf type0 url iconElement =
     (let type1 =
            (if type0 = [] \<and> url \<noteq> [] then
               (let urlParts = splitOn 0x2E url;
                    extension = (if length urlParts > 1 then toLowerCase (last urlParts) else [])
                in orElse (Some extension) (str ''unknown''))
             else type0);
          type2 = (if type1 = [] then str ''unknown'' else type1);
          type3 =
            (if type2 = [] \<or> type2 = str ''unknown'' then
               (case iconElement of
                  None \<Rightarrow> type2
                | Some icon \<Rightarrow> iconType (orElse (src icon) []) (className icon) type2)
             else type2)
      in orElse (Some type3) (str ''unknown''))"

definition extractFile :: "elementHandle \<Rightarrow> moodleFile option" where
  "extractFile element =
     (case element of
        Detached error \<Rightarrow> None
      | Attached el \<Rightarrow>
          (let nameElement =
                 querySelector el (str ''.instancename, .resource-name, .filename, .fp-filename'');
               linkElement =
                 (case querySelector el
                    (str ''a[href*=\"resource\"], a[href*=\"pluginfile\"], a[href*=\"folder\"]'') of
                    Some l \<Rightarrow> l | None \<Rightarrow> el);
               name = orElse (optText nameElement) (str ''Unknown File'');
               url = orElse (href linkElement) [];
               size = orElse (optText (querySelector el (str ''.filesize, .file-size, .size'')))
                 (str ''Unknown size'');
               typeElement = querySelector el (str ''.filetype, .file-type, .mimetype'');
               type = fileTypeOf (orElse (optText typeElement) []) url
                 (querySelector el (str ''.iconlarge, .activityicon, .icon, img''))
           in Some \<lparr>f_name = name, f_url = url, f_size = size, f_type = type,
                     f_downloadUrl = url\<rparr>))"

definition completionOf :: "element option \<Rightarrow> jsstring" where
  "completionOf statusElement =
     (case statusElement of
        None \<Rightarrow> str ''Not started''
      | Some e \<Rightarrow>
          (let statusText = map_option trim (textContent e);
               statusClass = className e;
               textHas = (\<lambda>w. case statusText of
                                  None \<Rightarrow> False
                                | Some t \<Rightarrow> str_includes (toLowerCase t) w)
           in if textHas (str ''complete'') \<or> str_includes statusClass (str ''completion-y'')
              then str ''Completed''
              else if textHas (str ''progress'') \<or> str_includes statusClass (str ''completion-n'')
              then str ''In Progress''
              else str ''Not started''))"

definition progressOf :: "element option \<Rightarrow> number option" where
  "progressOf progressElement =
     (case progressElement of
        None \<Rightarrow> None
      | Some e \<Rightarrow>
          (let fromText =
                 (case orNull (map_option trim (textContent e)) of
                    None \<Rightarrow> None
                  | Some progressText \<Rightarrow> map_option parseInt (matchPercent progressText))
           in case (querySelector e (str ''.progress-bar, .bar''), fromText) of
                (Some progressBar, None) \<Rightarrow>
                  (if styleWidth progressBar = [] then None
                   else map_option parseInt (matchPercent (styleWidth progressBar)))
              | _ \<Rightarrow> fromText))"

definition extractZybookIntegration ::
    "(jsstring \<Rightarrow> date) \<Rightarrow> elementHandle \<Rightarrow> zybookIntegration option" where
  "extractZybookIntegration newDate element =
     (case element of
        Detached error \<Rightarrow> None
      | Attached el \<Rightarrow>
          (let titleElement = querySelector el
                 (str ''.instancename, .activity-name, .lti-title, .external-tool-title'');
               linkElement =
                 (case querySelector el
                    (str ''a[href*=\"zybook\"], a[href*=\"lti\"], a[href*=\"external\"]'') of
                    Some l \<Rightarrow> l | None \<Rightarrow> el);
               title = orElse (optText titleElement) [];
               url = orElse (href linkElement) [];
               dueDate = dueDateOf newDate
                 (querySelector el (str ''.due-date, .duedate, [class*=\"due\"]''));
               completionStatus = completionOf (querySelector el
                 (str ''.status, .completion-status, .completion-manual, .completion-auto''));
               progress = progressOf (querySelector el
                 (str ''.progress, .completion-progress, [class*=\"progress\"]''))
           in Some \<lparr>z_title = title, z_url = url, z_dueDate = dueDate,
                     z_completionStatus = completionStatus, z_progress = progress\<rparr>))"

section \<open>The extraction helpers of the scraper (MoodleScraper.ts)\<close>

text \<open>
  The helpers of \<open>MoodleScraper\<close> call \<open>toISOString\<close> on the date they build
  without testing it; on an invalid date that throws a \<open>RangeError\<close> inside the
  callback, \<open>evaluate\<close> rejects, and the helper's \<open>catch\<close> returns \<open>null\<close>.
\<close>

definition toISOString :: "date \<Rightarrow> error + date" where
  "toISOString d = (if getTime d = None then Inl (Error (str ''Invalid time value'')) else Inr d)"

definition dueDateData :: "(jsstring \<Rightarrow> date) \<Rightarrow> element option \<Rightarrow> error + date option" where
  "dueDateData newDate dueDateEl =
     (case dueDateEl of
        None \<Rightarrow> Inr None
      | Some e \<Rightarrow>
          (case orNull (map_option trim (textContent e)) of
             None \<Rightarrow> Inr None
           | Some dueDateText \<Rightarrow>
               (case search slashDatePattern dueDateText of
                  None \<Rightarrow> Inr None
                | Some ms \<Rightarrow>
                    (case toISOString (newDate (concat ms)) of
                       Inl err \<Rightarrow> Inl err
                     | Inr d \<Rightarrow> Inr (Some d)))))"

definition extractAssignmentData ::
    "(jsstring \<Rightarrow> date) \<Rightarrow> jsstring \<Rightarrow> elementHandle \<Rightarrow> assignment option" where
  "extractAssignmentData newDate random element =
     (case element of
        Detached error \<Rightarrow> None
      | Attached el \<Rightarrow>
          (let titleEl =
                 querySelector el (str ''.instancename, .activity-name, h3, .mod-indent-title'');
               linkEl =
                 (case querySelector el (str ''a[href*=\"assign\"]'') of
                    Some l \<Rightarrow> l | None \<Rightarrow> el);
               dueDateEl = querySelector el (str ''.due-date, .assignment-due, [class*=\"due\"]'');
               statusEl =
                 querySelector el (str ''.status, .submission-status, [class*=\"status\"]'');
               title = orElse (optText titleEl) (str ''Unknown Assignment'');
               url = orElse (href linkEl) [];
               id = (case matchId url of Some ds \<Rightarrow> ds | None \<Rightarrow> random)
           in case dueDateData newDate dueDateEl of
                Inl error \<Rightarrow> None
              | Inr dueDate \<Rightarrow>
                  Some \<lparr>a_id = id, a_title = title, a_description = [], a_dueDate = dueDate,
                        a_submissionStatus = statusOf statusEl, a_maxGrade = Num 0,
                        a_currentGrade = None, a_url = url\<rparr>))"

definition extractGradeData :: "(jsstring \<Rightarrow> date) \<Rightarrow> elementHandle \<Rightarrow> grade option" where
  "extractGradeData newDate element =
     (case element of
        Detached error \<Rightarrow> None
      | Attached el \<Rightarrow>
          (let itemNameEl = querySelector el (str ''.gradeitem, .item-name, td:first-child'');
               gradeEl = querySelector el (str ''.grade, .points, .score'');
               maxGradeEl = querySelector el (str ''.max-grade, .total-points, .out-of'');
               feedbackEl = querySelector el (str ''.feedback, .comment'');
               dateEl = querySelector el (str ''.date-modified, .last-modified, .timestamp'');
               itemName = orElse (optText itemNameEl) (str ''Unknown Item'');
               gradeText = orElse (optText gradeEl) (str ''0'');
               maxGradeText = orElse (optText maxGradeEl) (str ''0'');
               percentage = percentageOf None gradeText maxGradeText;
               feedback = orNull (optText feedbackEl);
               dateModified =
                 (case orNull (optText dateEl) of
                    None \<Rightarrow> Inr None
                  | Some dateText \<Rightarrow>
                      (case toISOString (newDate dateText) of
                         Inl err \<Rightarrow> Inl err
                       | Inr d \<Rightarrow> Inr (Some d)))
           in case dateModified of
                Inl error \<Rightarrow> None
              | Inr dm \<Rightarrow>
                  Some \<lparr>g_itemName = Some itemName, g_grade = gradeText, g_maxGrade = maxGradeText,
                        g_percentage = percentage, g_feedback = feedback, g_dateModified = dm\<rparr>))"

definition fileTypeDataOf :: "jsstring \<Rightarrow> jsstring \<Rightarrow> jsstring" where
  "fileTypeDataOf type0 url =
     (if type0 = [] \<and> url \<noteq> [] then
        (let extension = toLowerCase (last (splitOn 0x2E url))
         in orElse (Some extension) (str ''unknown''))
      else type0)"

definition extractFileData :: "elementHandle \<Rightarrow> moodleFile option" where
  "extractFileData element =
     (case element of
        Detached error \<Rightarrow> None
      | Attached el \<Rightarrow>
          (let linkEl =
                 (case querySelector el (str ''a[href*=\"resource\"], a[href*=\"mod_resource\"]'') of
                    Some l \<Rightarrow> l | None \<Rightarrow> el);
               nameEl = querySelector el (str ''.instancename, .resource-name, .filename'');
               sizeEl = querySelector el (str ''.filesize, .file-size, [class*=\"size\"]'');
               typeEl = querySelector el (str ''.filetype, .file-type, .mimetype'');
               name = orElse (optText nameEl) (str ''Unknown File'');
               url = orElse (href linkEl) [];
               size = orElse (optText sizeEl) (str ''Unknown size'');
               type = fileTypeDataOf (orElse (optText typeEl) []) url
           in Some \<lparr>f_name = name, f_url = url, f_size = size, f_type = type,
                     f_downloadUrl = url\<rparr>))"

definition extractZybookData ::
    "(jsstring \<Rightarrow> date) \<Rightarrow> elementHandle \<Rightarrow> zybookIntegration option" where
  "extractZybookData newDate element =
     (case element of
        Detached error \<Rightarrow> None
      | Attached el \<Rightarrow>
          (let titleEl = querySelector el (str ''.instancename, .activity-name, .lti-title'');
               linkEl =
                 (case querySelector el (str ''a[href*=\"zybook\"], a[href*=\"lti\"]'') of
                    Some l \<Rightarrow> l | None \<Rightarrow> el);
               dueDateEl = querySelector el (str ''.due-date, [class*=\"due\"]'');
               statusEl =
                 querySelector el (str ''.status, .completion-status, [class*=\"status\"]'');
               progressEl =
                 querySelector el (str ''.progress, .completion, [class*=\"progress\"]'');
               title = orElse (optText titleEl) (str ''Zybook Activity'');
               url = orElse (href linkEl) [];
               completionStatus = orElse (optText statusEl) (str ''Not started'');
               progress =
                 (case optText progressEl of
                    None \<Rightarrow> None
                  | Some progressText \<Rightarrow> map_option parseInt (matchPercent progressText))
           in case dueDateData newDate dueDateEl of
                Inl error \<Rightarrow> None
              | Inr dueDate \<Rightarrow>
                  Some \<lparr>z_title = title, z_url = url, z_dueDate = dueDate,
                        z_completionStatus = completionStatus, z_progress = progress\<rparr>))"

section \<open>The browser\<close>

text \<open>
  The scraper drives a browser through puppeteer. What the browser does is the
  environment of the code, so it is a parameter: a \<open>document\<close> is what a page shows
  after a navigation (\<open>page.$\<close>, \<open>page.$$\<close> and \<open>page.content\<close>, each of
  which may reject), and a \<open>host\<close> gives the outcome of the operations that leave
  the page: launching, opening a page, navigating, typing, clicking, and closing the
  browser. \<open>clickAndWait\<close> is a click awaited together with the navigation it starts.
\<close>

record document =
  query :: "jsstring \<Rightarrow> error + bool"
  queryAll :: "jsstring \<Rightarrow> error + elementHandle list"
  content :: "error + jsstring"

record host =
  launch :: "error option"
  newPage :: "error option"
  goto :: "jsstring \<Rightarrow> error + document"
  typeText :: "jsstring \<Rightarrow> jsstring \<Rightarrow> error option"
  click :: "jsstring \<Rightarrow> error option"
  clickAndWait :: "jsstring \<Rightarrow> error + document"
  closeBrowser :: "error option"

definition blankDocument :: document where
  "blankDocument = \<lparr>query = (\<lambda>_. Inr False), queryAll = (\<lambda>_. Inr []), content = Inr []\<rparr>"

text \<open>
  The first selector of a list that the document has an element for, as the loops
  \<open>for (const selector of selectors) { if (await page.$(selector)) ... }\<close> find it; a
  rejecting lookup ends the loop with its error.
\<close>

fun firstPresent :: "document \<Rightarrow> jsstring list \<Rightarrow> error + jsstring option" where
  "firstPresent d [] = Inr None"
| "firstPresent d (selector # selectors) =
     (case query d selector of
        Inl e \<Rightarrow> Inl e
      | Inr found \<Rightarrow> if found then Inr (Some selector) else firstPresent d selectors)"

section \<open>The scraper (MoodleScraper.ts)\<close>

text \<open>
  The state holds the fields \<open>browser\<close> and \<open>page\<close> of the scraper (a browser is
  named by the number of its launch, a page by the document it shows) and, of the host, the
  browsers that are running and what has been typed and clicked.
\<close>

record credentials =
  email :: jsstring
  password :: jsstring
  classUrl :: jsstring

datatype action = Typed jsstring jsstring | Clicked jsstring

record state =
  browser :: "nat option"
  page :: "document option"
  running :: "nat list"
  launched :: nat
  actions :: "action list"

definition initialState :: state where
  "initialState = \<lparr>browser = None, page = None, running = [], launched = 0, actions = []\<rparr>"

definition initialize :: "host \<Rightarrow> state \<Rightarrow> (error + unit) \<times> state" where
  "initialize h st =
     (case launch h of
        Some e \<Rightarrow> (Inl e, st)
      | None \<Rightarrow>
          (let b = launched st;
               st1 = st\<lparr>browser := Some b, running := b # running st, launched := Suc b\<rparr>
           in case newPage h of
                Some e \<Rightarrow> (Inl e, st1)
              | None \<Rightarrow> (Inr (), st1\<lparr>page := Some blankDocument\<rparr>)))"

definition close :: "host \<Rightarrow> state \<Rightarrow> (error + unit) \<times> state" where
  "close h st =
     (case browser st of
        None \<Rightarrow> (Inr (), st)
      | Some b \<Rightarrow>
          (case closeBrowser h of
             Some e \<Rightarrow> (Inl e, st)
           | None \<Rightarrow> (Inr (), st\<lparr>browser := None, page := None, running := remove1 b (running st)\<rparr>)))"

definition pageType :: "host \<Rightarrow> jsstring \<Rightarrow> jsstring \<Rightarrow> state \<Rightarrow> (error + unit) \<times> state" where
  "pageType h selector t st =
     (case typeText h selector t of
        Some e \<Rightarrow> (Inl e, st)
      | None \<Rightarrow> (Inr (), st\<lparr>actions := actions st @ [Typed selector t]\<rparr>))"

definition pageClick :: "host \<Rightarrow> jsstring \<Rightarrow> state \<Rightarrow> (error + unit) \<times> state" where
  "pageClick h selector st =
     (case click h selector of
        Some e \<Rightarrow> (Inl e, st)
      | None \<Rightarrow> (Inr (), st\<lparr>actions := actions st @ [Clicked selector]\<rparr>))"

definition pageClickAndWait :: "host \<Rightarrow> jsstring \<Rightarrow> state \<Rightarrow> (error + document) \<times> state" where
  "pageClickAndWait h selector st =
     (case clickAndWait h selector of
        Inl e \<Rightarrow> (Inl e, st)
      | Inr d \<Rightarrow> (Inr d, st\<lparr>page := Some d, actions := actions st @ [Clicked selector]\<rparr>))"

definition findLoginSelector :: "document \<Rightarrow> error + jsstring" where
  "findLoginSelector d =
     (case firstPresent d
             [str ''input[name=\"username\"]'', str ''input[name=\"email\"]'',
              str ''input[type=\"email\"]'', str ''input[id*=\"email\"]'',
              str ''input[id*=\"username\"]'', str ''#username'', str ''#email''] of
        Inl e \<Rightarrow> Inl e
      | Inr (Some selector) \<Rightarrow> Inr selector
      | Inr None \<Rightarrow> Inl (Error (str ''Could not find email/username input field'')))"

definition findPasswordSelector :: "document \<Rightarrow> error + jsstring" where
  "findPasswordSelector d =
     (case firstPresent d
             [str ''input[name=\"password\"]'', str ''input[type=\"password\"]'',
              str ''#password''] of
        Inl e \<Rightarrow> Inl e
      | Inr (Some selector) \<Rightarrow> Inr selector
      | Inr None \<Rightarrow> Inl (Error (str ''Could not find password input field'')))"

definition findLoginButton :: "document \<Rightarrow> error + jsstring" where
  "findLoginButton d =
     (case firstPresent d
             [str ''button[type=\"submit\"]'', str ''input[type=\"submit\"]'',
              str ''button:contains(\"Login\")'', str ''button:contains(\"Sign in\")'',
              str ''.btn-primary'', str ''#loginbtn''] of
        Inl e \<Rightarrow> Inl e
      | Inr (Some selector) \<Rightarrow> Inr selector
      | Inr None \<Rightarrow> Inl (Error (str ''Could not find login button'')))"

definition verifyLogin :: "document \<Rightarrow> error + unit" where
  "verifyLogin d =
     (case content d of
        Inl e \<Rightarrow> Inl e
      | Inr pageContent \<Rightarrow>
          if str_includes pageContent (str ''Invalid login'') \<or>
             str_includes pageContent (str ''Login failed'') \<or>
             str_includes pageContent (str ''incorrect'')
          then Inl (Error (str ''Invalid credentials''))
          else Inr ())"

text \<open>The body of the \<open>try\<close> block of \<open>login\<close>.\<close>

definition loginSteps :: "host \<Rightarrow> credentials \<Rightarrow> state \<Rightarrow> (error + bool) \<times> state" where
  "loginSteps h cred st =
     (case goto h (classUrl cred) of
        Inl e \<Rightarrow> (Inl e, st)
      | Inr d \<Rightarrow>
          (let st1 = st\<lparr>page := Some d\<rparr> in
           case findLoginSelector d of
             Inl e \<Rightarrow> (Inl e, st1)
           | Inr emailSelector \<Rightarrow>
          (case findPasswordSelector d of
             Inl e \<Rightarrow> (Inl e, st1)
           | Inr passwordSelector \<Rightarrow>
          if emailSelector = [] \<or> passwordSelector = []
          then (Inl (Error (str ''Could not find login form elements'')), st1)
          else
          (case pageType h emailSelector (email cred) st1 of
             (Inl e, st2) \<Rightarrow> (Inl e, st2)
           | (Inr _, st2) \<Rightarrow>
          (case pageType h passwordSelector (password cred) st2 of
             (Inl e, st3) \<Rightarrow> (Inl e, st3)
           | (Inr _, st3) \<Rightarrow>
          (case findLoginButton d of
             Inl e \<Rightarrow> (Inl e, st3)
           | Inr loginButton \<Rightarrow>
          (case pageClickAndWait h loginButton st3 of
             (Inl e, st4) \<Rightarrow> (Inl e, st4)
           | (Inr d', st4) \<Rightarrow>
          (case verifyLogin d' of
             Inl e \<Rightarrow> (Inl e, st4)
           | Inr _ \<Rightarrow> (Inr True, st4)))))))))"

definition login :: "host \<Rightarrow> credentials \<Rightarrow> state \<Rightarrow> (error + bool) \<times> state" where
  "login h cred st =
     (case page st of
        None \<Rightarrow> (Inl (Error (str ''Browser not initialized'')), st)
      | Some _ \<Rightarrow>
          (case loginSteps h cred st of
             (Inl e, st') \<Rightarrow> (Inl (Error (str ''Login failed: '' @ message e)), st')
           | (Inr b, st') \<Rightarrow> (Inr b, st')))"

text \<open>
  \<open>waitForSelector\<close> succeeds when the document has an element for the selector; a
  time-out and a rejection are both turned into the error of the \<open>catch\<close>.
\<close>

definition navigateToClass :: "host \<Rightarrow> credentials \<Rightarrow> state \<Rightarrow> (error + unit) \<times> state" where
  "navigateToClass h cred st =
     (case page st of
        None \<Rightarrow> (Inl (Error (str ''Browser not initialized'')), st)
      | Some _ \<Rightarrow>
          (case goto h (classUrl cred) of
             Inl e \<Rightarrow> (Inl e, st)
           | Inr d \<Rightarrow>
               (case query d (str ''.course-content, .main-course-page, #page-content'') of
                  Inr True \<Rightarrow> (Inr (), st\<lparr>page := Some d\<rparr>)
                | _ \<Rightarrow>
                    (Inl (Error (str ''Could not access class page. Please verify the class URL.'')),
                     st\<lparr>page := Some d\<rparr>))))"

text \<open>The selectors of the collections, and the login indicators of \<open>isSessionValid\<close>.\<close>

definition assignmentSelector :: jsstring where
  "assignmentSelector = str ''a[href*=\"assign\"], a[href*=\"assignment\"], .activity.assign''"

definition gradesLinkSelector :: jsstring where
  "gradesLinkSelector = str ''a[href*=\"grade\"], a:contains(\"Grade\"), a:contains(\"Gradebook\")''"

definition gradeRowSelector :: jsstring where
  "gradeRowSelector = str ''tr.graderow, .gradestable tr''"

definition fileSelector :: jsstring where
  "fileSelector = str ''a[href*=\"resource\"], a[href*=\"folder\"], .activity.resource''"

definition zybookSelector :: jsstring where
  "zybookSelector = str ''a[href*=\"zybook\"], a[href*=\"zybooks\"], .activity.lti''"

definition loginIndicators :: "jsstring list" where
  "loginIndicators =
     [str ''input[name=\"username\"]'', str ''input[name=\"password\"]'', str ''.login-form'',
      str ''#loginform'']"

text \<open>
  The loops over the elements of a collection: an element whose helper returns
  \<open>null\<close> is skipped. \<open>randoms i\<close> is the text \<open>Math.random().toString()\<close> would
  give at the \<open>i\<close>-th element.
\<close>

fun collectAssignments ::
    "(jsstring \<Rightarrow> date) \<Rightarrow> (nat \<Rightarrow> jsstring) \<Rightarrow> nat \<Rightarrow> elementHandle list \<Rightarrow> assignment list" where
  "collectAssignments newDate randoms i [] = []"
| "collectAssignments newDate randoms i (element # elements) =
     (case extractAssignmentData newDate (randoms i) element of
        Some assignment \<Rightarrow> assignment # collectAssignments newDate randoms (Suc i) elements
      | None \<Rightarrow> collectAssignments newDate randoms (Suc i) elements)"

fun collect :: "(elementHandle \<Rightarrow> 'a option) \<Rightarrow> elementHandle list \<Rightarrow> 'a list" where
  "collect extract [] = []"
| "collect extract (element # elements) =
     (case extract element of
        Some x \<Rightarrow> x # collect extract elements
      | None \<Rightarrow> collect extract elements)"

definition scrapeAssignments ::
    "(jsstring \<Rightarrow> date) \<Rightarrow> (nat \<Rightarrow> jsstring) \<Rightarrow> state \<Rightarrow> error + assignment list" where
  "scrapeAssignments newDate randoms st =
     (case page st of
        None \<Rightarrow> Inl (Error (str ''Browser not initialized''))
      | Some d \<Rightarrow>
          (case queryAll d assignmentSelector of
             Inl e \<Rightarrow> Inr []
           | Inr assignmentElements \<Rightarrow>
               Inr (collectAssignments newDate randoms 0 assignmentElements)))"

definition scrapeGrades ::
    "host \<Rightarrow> (jsstring \<Rightarrow> date) \<Rightarrow> state \<Rightarrow> (error + grade list) \<times> state" where
  "scrapeGrades h newDate st =
     (case page st of
        None \<Rightarrow> (Inl (Error (str ''Browser not initialized'')), st)
      | Some d \<Rightarrow>
          (case query d gradesLinkSelector of
                Inr True \<Rightarrow>
                  (case pageClickAndWait h gradesLinkSelector st of
                     (Inl e, st1) \<Rightarrow> (Inr [], st1)
                   | (Inr d', st1) \<Rightarrow>
                       (case queryAll d' gradeRowSelector of
                          Inl e \<Rightarrow> (Inr [], st1)
                        | Inr gradeRows \<Rightarrow> (Inr (collect (extractGradeData newDate) gradeRows), st1)))
              | _ \<Rightarrow> (Inr [], st)))"

definition scrapeFiles :: "state \<Rightarrow> error + moodleFile list" where
  "scrapeFiles st =
     (case page st of
        None \<Rightarrow> Inl (Error (str ''Browser not initialized''))
      | Some d \<Rightarrow>
          (case queryAll d fileSelector of
             Inl e \<Rightarrow> Inr []
           | Inr fileElements \<Rightarrow> Inr (collect extractFileData fileElements)))"

definition scrapeZybookIntegrations ::
    "(jsstring \<Rightarrow> date) \<Rightarrow> state \<Rightarrow> error + zybookIntegration list" where
  "scrapeZybookIntegrations newDate st =
     (case page st of
        None \<Rightarrow> Inl (Error (str ''Browser not initialized''))
      | Some d \<Rightarrow>
          (case queryAll d zybookSelector of
             Inl e \<Rightarrow> Inr []
           | Inr zybookElements \<Rightarrow> Inr (collect (extractZybookData newDate) zybookElements)))"

record scrapedData =
  assignments :: "assignment list"
  grades :: "grade list"
  files :: "moodleFile list"
  zybookIntegrations :: "zybookIntegration list"

text \<open>
  \<open>scrapeAll\<close> awaits \<open>initialize\<close>, \<open>login\<close> and
  \<open>navigateToClass\<close> one after the other; a step that rejects ends it there. It then
  starts the four scrapes together (\<open>Promise.all\<close>): each of them runs up to its
  first lookup before any of them goes on, so the four lookups are made on the page that
  \<open>navigateToClass\<close> has left, and the click on the gradebook link, which changes the
  page, comes after them. The element handles that the lookups have returned are taken to
  stay usable while the gradebook loads. The first scrape that rejects gives the error of
  \<open>Promise.all\<close>; \<open>close\<close> comes last.
\<close>

definition scrapeAll ::
    "host \<Rightarrow> (jsstring \<Rightarrow> date) \<Rightarrow> (nat \<Rightarrow> jsstring) \<Rightarrow> credentials \<Rightarrow> state \<Rightarrow>
     (error + scrapedData) \<times> state" where
  "scrapeAll h newDate randoms cred st =
     (case initialize h st of
        (Inl e, st1) \<Rightarrow> (Inl e, st1)
      | (Inr _, st1) \<Rightarrow>
     (case login h cred st1 of
        (Inl e, st2) \<Rightarrow> (Inl e, st2)
      | (Inr _, st2) \<Rightarrow>
     (case navigateToClass h cred st2 of
        (Inl e, st3) \<Rightarrow> (Inl e, st3)
      | (Inr _, st3) \<Rightarrow>
     (case scrapeGrades h newDate st3 of
        (gradesResult, st4) \<Rightarrow>
     (case scrapeAssignments newDate randoms st3 of
        Inl e \<Rightarrow> (Inl e, st4)
      | Inr as \<Rightarrow>
     (case gradesResult of
        Inl e \<Rightarrow> (Inl e, st4)
      | Inr gs \<Rightarrow>
     (case scrapeFiles st3 of
        Inl e \<Rightarrow> (Inl e, st4)
      | Inr fs \<Rightarrow>
     (case scrapeZybookIntegrations newDate st3 of
        Inl e \<Rightarrow> (Inl e, st4)
      | Inr zs \<Rightarrow>
     (case close h st4 of
        (Inl e, st5) \<Rightarrow> (Inl e, st5)
      | (Inr _, st5) \<Rightarrow>
          (Inr \<lparr>assignments = as, grades = gs, files = fs, zybookIntegrations = zs\<rparr>,
           st5))))))))))"

text \<open>
  \<open>scrapeMoodle\<close> (index.ts): a new scraper, \<open>initialize\<close>, \<open>login\<close> and
  \<open>scrapeAll\<close> in a \<open>try\<close> block, and \<open>close\<close> in its \<open>finally\<close>; an error
  of \<open>close\<close> replaces the outcome of the block.
\<close>

definition scrapeMoodle ::
    "host \<Rightarrow> (jsstring \<Rightarrow> date) \<Rightarrow> (nat \<Rightarrow> jsstring) \<Rightarrow> credentials \<Rightarrow>
     (error + scrapedData) \<times> state" where
  "scrapeMoodle h newDate randoms cred =
     (let tried =
            (case initialize h initialState of
               (Inl e, st1) \<Rightarrow> (Inl e, st1)
             | (Inr _, st1) \<Rightarrow>
                 (case login h cred st1 of
                    (Inl e, st2) \<Rightarrow> (Inl e, st2)
                  | (Inr _, st2) \<Rightarrow> scrapeAll h newDate randoms cred st2))
      in case close h (snd tried) of
           (Inl e, st') \<Rightarrow> (Inl e, st')
         | (Inr _, st') \<Rightarrow> (fst tried, st'))"

definition isSessionValid :: "host \<Rightarrow> credentials \<Rightarrow> state \<Rightarrow> (error + bool) \<times> state" where
  "isSessionValid h cred st =
     (case page st of
        None \<Rightarrow> (Inr False, st)
      | Some _ \<Rightarrow>
          (case goto h (classUrl cred) of
             Inl e \<Rightarrow> (Inr False, st)
           | Inr d \<Rightarrow>
               (case firstPresent d loginIndicators of
                  Inl e \<Rightarrow> (Inr False, st\<lparr>page := Some d\<rparr>)
                | Inr (Some selector) \<Rightarrow> (Inr False, st\<lparr>page := Some d\<rparr>)
                | Inr None \<Rightarrow> (Inr True, st\<lparr>page := Some d\<rparr>))))"

section \<open>The authenticator (MoodleAuth.ts)\<close>

definition findUsernameField :: "document \<Rightarrow> error + jsstring option" where
  "findUsernameField d =
     firstPresent d
       [str ''input[name=\"username\"]'', str ''input[name=\"email\"]'',
        str ''input[type=\"email\"]'', str ''input[id=\"username\"]'', str ''input[id=\"email\"]'',
        str ''input[placeholder*=\"username\" i]'', str ''input[placeholder*=\"email\" i]'',
        str ''input[aria-label*=\"username\" i]'', str ''input[aria-label*=\"email\" i]'',
        str ''.form-group input[type=\"text\"]:first-of-type'',
        str ''form input[type=\"text\"]:first-of-type'']"

definition findPasswordField :: "document \<Rightarrow> error + jsstring option" where
  "findPasswordField d =
     firstPresent d
       [str ''input[name=\"password\"]'', str ''input[type=\"password\"]'',
        str ''input[id=\"password\"]'', str ''input[placeholder*=\"password\" i]'',
        str ''input[aria-label*=\"password\" i]'']"

definition findSubmitButton :: "document \<Rightarrow> error + jsstring option" where
  "findSubmitButton d =
     firstPresent d
       [str ''input[type=\"submit\"]'', str ''button[type=\"submit\"]'',
        str ''button:contains(\"Login\")'', str ''button:contains(\"Sign in\")'',
        str ''button:contains(\"Log in\")'', str ''input[value*=\"login\" i]'',
        str ''input[value*=\"sign in\" i]'', str ''.btn-primary'', str ''.login-btn'',
        str ''#loginbtn'', str ''form button:last-of-type'']"

text \<open>
  The token is written into its field when there is a token and the field is found;
  only the lookup of the field can reject.
\<close>

definition echoToken :: "document \<Rightarrow> jsstring option \<Rightarrow> error + unit" where
  "echoToken d csrfToken =
     (if orElse csrfToken [] = [] then Inr ()
      else (case query d (str ''input[name=\"logintoken\"], input[name=\"_token\"]'') of
              Inl e \<Rightarrow> Inl e
            | Inr _ \<Rightarrow> Inr ()))"

text \<open>\<open>performLogin\<close> on a page that shows the document \<open>d\<close>.\<close>

definition performLogin ::
    "host \<Rightarrow> credentials \<Rightarrow> jsstring option \<Rightarrow> document \<Rightarrow> state \<Rightarrow> (error + unit) \<times> state" where
  "performLogin h cred csrfToken d st =
     (case findUsernameField d of
        Inl e \<Rightarrow> (Inl e, st)
      | Inr usernameSelector \<Rightarrow>
     (case findPasswordField d of
        Inl e \<Rightarrow> (Inl e, st)
      | Inr passwordSelector \<Rightarrow>
     (case findSubmitButton d of
        Inl e \<Rightarrow> (Inl e, st)
      | Inr submitSelector \<Rightarrow>
     if orElse usernameSelector [] = [] \<or> orElse passwordSelector [] = [] \<or>
        orElse submitSelector [] = []
     then (Inl (Error (str ''Could not locate all required login form elements'')), st)
     else
     (case pageClick h (orElse usernameSelector []) st of
        (Inl e, st1) \<Rightarrow> (Inl e, st1)
      | (Inr _, st1) \<Rightarrow>
     (case pageType h (orElse usernameSelector []) (email cred) st1 of
        (Inl e, st2) \<Rightarrow> (Inl e, st2)
      | (Inr _, st2) \<Rightarrow>
     (case pageClick h (orElse passwordSelector []) st2 of
        (Inl e, st3) \<Rightarrow> (Inl e, st3)
      | (Inr _, st3) \<Rightarrow>
     (case pageType h (orElse passwordSelector []) (password cred) st3 of
        (Inl e, st4) \<Rightarrow> (Inl e, st4)
      | (Inr _, st4) \<Rightarrow>
     (case echoToken d csrfToken of
        Inl e \<Rightarrow> (Inl e, st4)
      | Inr _ \<Rightarrow>
     (case pageClickAndWait h (orElse submitSelector []) st4 of
        (Inl e, st5) \<Rightarrow> (Inl e, st5)
      | (Inr _, st5) \<Rightarrow> (Inr (), st5))))))))))"

section \<open>Waiting for the second factor (the 2FA handling guide)\<close>

definition detect2FA :: "document \<Rightarrow> error + bool" where
  "detect2FA d =
     (case firstPresent d
             [str ''input[name=\"pin\"]'', str ''input[name=\"code\"]'', str ''input[name=\"token\"]'',
              str ''input[name=\"verification_code\"]'', str ''.two-factor'', str ''.2fa'',
              str ''.mfa'', str ''[class*=\"authenticator\"]'', str ''input[placeholder*=\"code\" i]'',
              str ''input[placeholder*=\"token\" i]'', str ''.duo-frame'', str ''#duo_iframe'',
              str ''[src*=\"duosecurity.com\"]'', str ''.duo-auth'', str ''.duo-login'',
              str ''iframe[title*=\"duo\" i]''] of
        Inl e \<Rightarrow> Inl e
      | Inr (Some selector) \<Rightarrow> Inr True
      | Inr None \<Rightarrow>
          (case content d of
             Inl e \<Rightarrow> Inl e
           | Inr pageContent \<Rightarrow>
               Inr (list_ex (\<lambda>indicator. str_includes (toLowerCase pageContent) indicator)
                      [str ''two-factor'', str ''authentication code'', str ''verification code'',
                       str ''authenticator app'', str ''text message'', str ''SMS code'',
                       str ''duo mobile'', str ''duo security'', str ''duo authentication'',
                       str ''duosecurity.com'', str ''push notification'', str ''duo push'',
                       str ''checking for request'', str ''waiting for response''])))"

definition isOnDashboard :: "document \<Rightarrow> error + bool" where
  "isOnDashboard d =
     (case firstPresent d
             [str ''.dashboard'', str ''.course-overview'', str ''.block_myoverview'',
              str ''[data-region=\"view-overview\"]''] of
        Inl e \<Rightarrow> Inl e
      | Inr (Some selector) \<Rightarrow> Inr True
      | Inr None \<Rightarrow> Inr False)"

definition maxWaitTime :: nat where
  "maxWaitTime = 300000"

definition checkInterval :: nat where
  "checkInterval = 2000"

text \<open>
  The loop of \<open>waitFor2FACompletion\<close>. \<open>docs k\<close> is the document that the page
  shows at the \<open>k\<close>-th poll (what the user and the site have made of it by then);
  \<open>elapsed\<close> and \<open>duoDetected\<close> are the variables of the source. The progress
  messages print and change nothing.
\<close>

function waitLoop :: "(nat \<Rightarrow> document) \<Rightarrow> nat \<Rightarrow> nat \<Rightarrow> bool \<Rightarrow> error + unit" where
  "waitLoop docs k elapsed duoDetected =
     (if elapsed < maxWaitTime then
        (case detect2FA (docs k) of
           Inl e \<Rightarrow> Inl e
         | Inr still2FA \<Rightarrow>
        (case isOnDashboard (docs k) of
           Inl e \<Rightarrow> Inl e
         | Inr onDashboard \<Rightarrow>
        (case (if duoDetected then Inr True
               else (case content (docs k) of
                       Inl e \<Rightarrow> Inl e
                     | Inr pageContent \<Rightarrow>
                         Inr (str_includes (toLowerCase pageContent) (str ''duo'') \<or>
                              str_includes (toLowerCase pageContent) (str ''push notification'')))) of
           Inl e \<Rightarrow> Inl e
         | Inr duo \<Rightarrow>
             if \<not> still2FA \<or> onDashboard then Inr ()
             else waitLoop docs (Suc k) (elapsed + checkInterval) duo)))
      else Inl (Error (str ''2FA timeout - please complete authentication faster'')))"
  by pat_completeness auto
termination
  by (relation "measure (\<lambda>(docs, k, elapsed, duoDetected). maxWaitTime - elapsed)")
     (auto simp: maxWaitTime_def checkInterval_def)

declare waitLoop.simps [simp del]

definition waitFor2FACompletion :: "(nat \<Rightarrow> document) \<Rightarrow> error + unit" where
  "waitFor2FACompletion docs = waitLoop docs 0 0 False"

text \<open>The error of the ceiling.\<close>

definition timeoutError :: error where
  "timeoutError = Error (str ''2FA timeout - please complete authentication faster'')"

section \<open>Elements used at concrete inputs\<close>

text \<open>
  \<open>leaf t\<close> is an element with text \<open>t\<close> and no descendants, \<open>emptyElement\<close>
  one with empty text. \<open>gradeRow g m\<close> is a row of the gradebook whose grade cell
  (class \<open>grade\<close>, which the selectors of both grade extractors find) and maximum cell
  (class \<open>max-grade\<close>) hold the texts \<open>g\<close> and \<open>m\<close>. \<open>fileLink u\<close>
  is a link to the URL \<open>u\<close> with nothing inside, \<open>assignmentLink t u\<close> a link to
  \<open>u\<close> whose title element holds the text \<open>t\<close>. \<open>hugeNumeral\<close> is the
  decimal numeral of \<open>10^309\<close>: the digit 1 and 309 zeros.
\<close>

definition leaf :: "jsstring \<Rightarrow> element" where
  "leaf t = Element (Some t) None None [] [] (\<lambda>_. None)"

definition emptyElement :: element where
  "emptyElement = leaf []"

definition gradeRow :: "jsstring \<Rightarrow> jsstring \<Rightarrow> element" where
  "gradeRow g m = Element (Some []) None None [] []
     (\<lambda>s. if s = str ''.grade, .points, .score'' \<or>
             s = str ''.grade, .points, .percentage, .finalgrade'' then Some (leaf g)
          else if s = str ''.max-grade, .total-points, .out-of'' then Some (leaf m)
          else None)"

definition hugeNumeral :: jsstring where
  "hugeNumeral = 0x31 # replicate 309 0x30"

definition fileLink :: "jsstring \<Rightarrow> element" where
  "fileLink u = Element (Some []) (Some u) None [] [] (\<lambda>_. None)"

definition assignmentLink :: "jsstring \<Rightarrow> jsstring \<Rightarrow> element" where
  "assignmentLink t u = Element (Some t) (Some u) None [] []
     (\<lambda>s. if s = str ''.instancename, .activity-name, h3, .mod-indent-title'' \<or>
             s = str ''.instancename, .activity-name, h3, .assignment-title'' then Some (leaf t)
          else None)"

text \<open>
  Hosts, documents and states of the same kind: \<open>siteOf d\<close> is a host on which
  everything succeeds and every navigation shows the document \<open>d\<close>,
  \<open>offlineHost\<close> one on which every navigation fails. \<open>formWithoutSubmit\<close> is
  a login form with a user name field and a password field and no submit control,
  \<open>coursePage\<close> a page with the login form, a submit button and the course content,
  \<open>challengePage\<close> a page that shows a Duo frame, \<open>dashboardPage\<close> the
  dashboard, \<open>framedDashboardPage\<close> a dashboard that still embeds the Duo frame, and
  \<open>listing selector es\<close> a page on which the lookup of \<open>selector\<close> returns
  the handles \<open>es\<close> and every other lookup nothing. \<open>gradebookLinkPage\<close> is a
  course page with a gradebook link, and \<open>gradebookSite es\<close> a host on which the
  click on that link leads to a gradebook with the rows \<open>es\<close>. \<open>closedPage\<close> is
  a page whose target has been closed: every lookup on it fails.
  \<open>openedOn d\<close> is the state of a scraper after \<open>initialize\<close> whose page shows
  \<open>d\<close>.
\<close>

definition siteOf :: "document \<Rightarrow> host" where
  "siteOf d = \<lparr>launch = None, newPage = None, goto = (\<lambda>_. Inr d), typeText = (\<lambda>_ _. None),
               click = (\<lambda>_. None), clickAndWait = (\<lambda>_. Inr d), closeBrowser = None\<rparr>"

definition formWithoutSubmit :: document where
  "formWithoutSubmit =
     \<lparr>query = (\<lambda>s. Inr (s = str ''input[name=\"username\"]'' \<or> s = str ''input[name=\"password\"]'')),
      queryAll = (\<lambda>_. Inr []), content = Inr []\<rparr>"

definition coursePage :: document where
  "coursePage =
     \<lparr>query = (\<lambda>s. Inr (s = str ''input[name=\"username\"]'' \<or> s = str ''input[name=\"password\"]'' \<or>
                         s = str ''button[type=\"submit\"]'' \<or>
                         s = str ''.course-content, .main-course-page, #page-content'')),
      queryAll = (\<lambda>_. Inr []), content = Inr []\<rparr>"

definition someCredentials :: credentials where
  "someCredentials = \<lparr>email = str ''test@example.com'', password = str ''testpassword'',
     classUrl = str ''https://test-moodle.com/course/view.php?id=123''\<rparr>"

definition offlineHost :: host where
  "offlineHost = \<lparr>launch = None, newPage = None,
     goto = (\<lambda>_. Inl (Error (str ''net::ERR_INTERNET_DISCONNECTED''))),
     typeText = (\<lambda>_ _. None), click = (\<lambda>_. None),
     clickAndWait = (\<lambda>_. Inl (Error (str ''net::ERR_INTERNET_DISCONNECTED''))),
     closeBrowser = None\<rparr>"

definition challengePage :: document where
  "challengePage = \<lparr>query = (\<lambda>s. Inr (s = str ''.duo-frame'')), queryAll = (\<lambda>_. Inr []),
     content = Inr (str ''<div class=\"duo-frame\"></div>'')\<rparr>"

definition dashboardPage :: document where
  "dashboardPage = \<lparr>query = (\<lambda>s. Inr (s = str ''.dashboard'')), queryAll = (\<lambda>_. Inr []),
     content = Inr (str ''<div class=\"dashboard\"></div>'')\<rparr>"

definition framedDashboardPage :: document where
  "framedDashboardPage =
     \<lparr>query = (\<lambda>s. Inr (s = str ''.duo-frame'' \<or> s = str ''.dashboard'')),
      queryAll = (\<lambda>_. Inr []),
      content = Inr (str ''<div class=\"dashboard\"><iframe class=\"duo-frame\"></iframe></div>'')\<rparr>"

definition closedPage :: document where
  "closedPage =
     \<lparr>query = (\<lambda>_. Inl (Error (str ''Target closed''))),
      queryAll = (\<lambda>_. Inl (Error (str ''Target closed''))),
      content = Inl (Error (str ''Target closed''))\<rparr>"

definition listing :: "jsstring \<Rightarrow> elementHandle list \<Rightarrow> document" where
  "listing selector es = \<lparr>query = (\<lambda>_. Inr False),
     queryAll = (\<lambda>s. if s = selector then Inr es else Inr []), content = Inr []\<rparr>"

definition gradebookSite :: "elementHandle list \<Rightarrow> host" where
  "gradebookSite es =
     \<lparr>launch = None, newPage = None,
      goto = (\<lambda>_. Inr (listing gradeRowSelector es)), typeText = (\<lambda>_ _. None),
      click = (\<lambda>_. None), clickAndWait = (\<lambda>_. Inr (listing gradeRowSelector es)),
      closeBrowser = None\<rparr>"

definition gradebookLinkPage :: document where
  "gradebookLinkPage = \<lparr>query = (\<lambda>s. Inr (s = gradesLinkSelector)), queryAll = (\<lambda>_. Inr []),
     content = Inr []\<rparr>"

definition openedOn :: "document \<Rightarrow> state" where
  "openedOn d = \<lparr>browser = Some 0, page = Some d, running = [0], launched = 1, actions = []\<rparr>"

section \<open>Theorems\<close>

text \<open>The definitions unfolded when a function is evaluated at a concrete input.\<close>

lemmas string_defs = str_def trim_def isWhiteSpace_def toLowerCase_def isDigit_def chr_def
  isSlashOrDash_def isWordChar_def
lemmas pattern_defs = idPattern_def numberPattern_def percentPattern_def slashDatePattern_def
  matchId_def matchPercent_def matchGradePair_def
lemmas element_defs = leaf_def emptyElement_def gradeRow_def fileLink_def assignmentLink_def
  optText_def
lemmas date_defs = v8Date_def utcDate_def numericDatePattern_def makeDate_def daysFromCivil_def
  isMonth_def isDay_def legacyYear_def digitsValue_def
lemmas scraper_defs = siteOf_def initialState_def initialize_def close_def login_def loginSteps_def
  findLoginSelector_def findPasswordSelector_def findLoginButton_def verifyLogin_def
  pageType_def pageClick_def pageClickAndWait_def navigateToClass_def blankDocument_def

subsection \<open>Numbers\<close>

text \<open>
  The integers 0, 85 and 100 are representable. The quotient 85 / 100 is rounded, and its
  product with 100 is rounded to 85; the product of the rounded quotient 57 / 100 with 100
  is rounded to the number below 57 (JavaScript prints it as 56.99999999999999).
\<close>

lemma round64_0: "round64 0 = Num 0"
  by (simp add: round64_def)

lemma round64_85: "round64 85 = Num 85"
  by code_simp

lemma round64_57: "round64 57 = Num 57"
  by code_simp

lemma round64_100: "round64 100 = Num 100"
  by code_simp

lemma ratio_85_100: "numTimes (numDivide (Num 85) (Num 100)) (Num 100) = Num 85"
  by code_simp

lemma ratio_57_100: "numTimes (numDivide (Num 57) (Num 100)) (Num 100) = Num (57 - 1 / 2 ^ 47)"
  by code_simp

text \<open>A value of at least \<open>2^1024\<close> is rounded to the infinity.\<close>

lemma bitLength_gt: "2 ^ k \<le> n \<Longrightarrow> k < bitLength n"
proof (induction k arbitrary: n)
  case 0
  then show ?case by (subst bitLength.simps) simp
next
  case (Suc k)
  then have "2 ^ k \<le> n div 2" by simp
  then have "k < bitLength (n div 2)" by (rule Suc.IH)
  moreover have "n \<noteq> 0"
  proof
    assume "n = 0"
    then show False using Suc.prems by simp
  qed
  ultimately show ?case by (subst bitLength.simps) simp
qed

lemma round64_overflow:
  assumes "2 ^ 1024 \<le> n"
  shows "round64 (of_nat n) = PosInfinity"
proof -
  have b: "1024 < bitLength n" using assms by (rule bitLength_gt)
  have n: "0 < n" using assms by (metis gr0I not_less power_not_zero zero_neq_numeral le_zero_eq)
  then have "(1::rat) \<le> of_nat n" by simp
  then have "ilog2 (of_nat n) = int (bitLength n) - 1" by (simp add: ilog2_def)
  then have "1024 \<le> ilog2 (of_nat n)" using b by simp
  then show ?thesis using n by (simp add: round64_def Let_def)
qed

subsection \<open>cleanText (claim C9)\<close>

lemma collapseWs_append:
  "list_all (\<lambda>c. \<not> isWhiteSpace c) w \<Longrightarrow> collapseWs (w @ r) = w @ collapseWs r"
  by (induction w) auto

lemma dropTrailingWs_append:
  "list_all (\<lambda>c. \<not> isWhiteSpace c) w \<Longrightarrow> dropTrailingWs (w @ r) = w @ dropTrailingWs r"
  by (induction w) auto

lemma collapseWs_hd:
  "s = [] \<or> \<not> isWhiteSpace (hd s) \<Longrightarrow> collapseWs s = [] \<or> \<not> isWhiteSpace (hd (collapseWs s))"
  by (cases s) auto

lemma dropWhile_hd: "dropWhile P s = [] \<or> \<not> P (hd (dropWhile P s))"
  by (metis hd_dropWhile)

lemma dropWhile_id: "s = [] \<or> \<not> P (hd s) \<Longrightarrow> dropWhile P s = s"
  by (cases s) auto

lemma dropWhile_collapseWs:
  "dropWhile isWhiteSpace (collapseWs s) = collapseWs (dropWhile isWhiteSpace s)"
proof (cases s)
  case Nil then show ?thesis by simp
next
  case (Cons c cs)
  show ?thesis
  proof (cases "isWhiteSpace c")
    case True
    let ?t = "dropWhile isWhiteSpace cs"
    have "dropWhile isWhiteSpace (collapseWs ?t) = collapseWs ?t"
      by (intro dropWhile_id collapseWs_hd dropWhile_hd)
    then show ?thesis using Cons True by (simp add: isWhiteSpace_def)
  next
    case False then show ?thesis using Cons by simp
  qed
qed

lemma collapseWs_all_ws:
  assumes "dropWhile isWhiteSpace r = []"
  shows "dropTrailingWs (collapseWs r) = []"
proof (cases r)
  case Nil then show ?thesis by simp
next
  case (Cons d ds)
  have d: "isWhiteSpace d" using assms Cons by (simp split: if_splits)
  then have "dropWhile isWhiteSpace ds = []" using assms Cons by simp
  then have "collapseWs r = [0x20]" using Cons d by (simp del: dropWhile_eq_Nil_conv)
  then show ?thesis by (simp add: isWhiteSpace_def)
qed

lemma wordsOf_all_ws:
  assumes "dropWhile isWhiteSpace r = []"
  shows "wordsOf r = []"
  by (subst wordsOf.simps) (simp only: assms Let_def, simp)

lemma wordsOf_not_all_ws:
  assumes "dropWhile isWhiteSpace r \<noteq> []"
  shows "wordsOf r \<noteq> []"
  by (subst wordsOf.simps) (simp only: assms Let_def if_False list.distinct not_False_eq_True)

lemma joinWithSpace_Cons:
  "joinWithSpace (w # ws) = (if ws = [] then w else w @ 0x20 # joinWithSpace ws)"
  by (cases ws) auto

lemma takeWhile_dropWhile_all: "list_all P (takeWhile P s)"
  by (induction s) auto

lemma stripEnds_collapseWs: "stripEnds (collapseWs s) = joinWithSpace (wordsOf s)"
proof (induction s rule: wordsOf.induct)
  case (1 s)
  let ?t = "dropWhile isWhiteSpace s"
  let ?N = "\<lambda>c. \<not> isWhiteSpace c"
  have L: "stripEnds (collapseWs s) = dropTrailingWs (collapseWs ?t)"
    by (simp add: stripEnds_def dropWhile_collapseWs)
  show ?case
  proof (cases "?t = []")
    case True
    have "wordsOf s = []" using True by (simp add: wordsOf.simps [of s])
    moreover have "dropTrailingWs (collapseWs ?t) = []"
      by (simp only: True collapseWs.simps dropTrailingWs.simps)
    ultimately show ?thesis using L by simp
  next
    case False
    let ?w = "takeWhile ?N ?t" and ?r = "dropWhile ?N ?t"
    let ?u = "dropWhile isWhiteSpace ?r"
    have IH: "dropTrailingWs (collapseWs ?u) = joinWithSpace (wordsOf ?r)"
      using 1 [OF refl False] by (simp add: stripEnds_def dropWhile_collapseWs)
    have w: "list_all ?N ?w" by (rule takeWhile_dropWhile_all)
    have t: "?t = ?w @ ?r" by simp
    have W: "wordsOf s = ?w # wordsOf ?r" using False by (simp add: wordsOf.simps [of s] Let_def)
    have C: "collapseWs ?t = ?w @ collapseWs ?r"
      using collapseWs_append [OF w, of ?r] by simp
    have D: "dropTrailingWs (collapseWs ?t) = ?w @ dropTrailingWs (collapseWs ?r)"
      unfolding C by (rule dropTrailingWs_append [OF w])
    show ?thesis
    proof (cases "?u = []")
      case True
      then have wr: "wordsOf ?r = []" by (rule wordsOf_all_ws)
      have "dropTrailingWs (collapseWs ?r) = []"
        using True by (rule collapseWs_all_ws)
      then show ?thesis using L D W wr by simp
    next
      case uF: False
      then obtain e es where u: "?u = e # es" by (cases ?u) auto
      have e: "\<not> isWhiteSpace e" using u by (metis dropWhile_eq_Cons_conv)
      have rne: "?r \<noteq> []"
      proof
        assume a: "?r = []"
        have "?u = []" unfolding a by simp
        then show False using uF by contradiction
      qed
      then obtain d ds where r: "?r = d # ds" by (cases ?r) auto
      have d: "isWhiteSpace d" using r by (metis dropWhile_eq_Cons_conv)
      have ud: "?u = dropWhile isWhiteSpace ds" using r d by simp
      have cr: "collapseWs ?r = 0x20 # collapseWs ?u" using r d ud by simp
      have cu: "collapseWs ?u = e # collapseWs es" using u e by simp
      have wne: "wordsOf ?r \<noteq> []" using uF by (rule wordsOf_not_all_ws)
      have "dropTrailingWs (collapseWs ?r) = 0x20 # dropTrailingWs (collapseWs ?u)"
        unfolding cr using cu e by simp
      then show ?thesis using L D W wne IH by (simp add: joinWithSpace_Cons)
    qed
  qed
qed

lemma goodWords_wordsOf: "goodWords (wordsOf s)"
proof (induction s rule: wordsOf.induct)
  case (1 s)
  let ?t = "dropWhile isWhiteSpace s"
  let ?N = "\<lambda>c. \<not> isWhiteSpace c"
  show ?case
  proof (cases "?t = []")
    case True then show ?thesis by (simp add: wordsOf.simps [of s] goodWords_def)
  next
    case False
    then obtain c cs where t: "?t = c # cs" by (cases ?t) auto
    have c: "\<not> isWhiteSpace c" using t by (metis dropWhile_eq_Cons_conv)
    have "takeWhile ?N ?t \<noteq> []" using t c by simp
    moreover have "list_all ?N (takeWhile ?N ?t)" by (rule takeWhile_dropWhile_all)
    moreover have "goodWords (wordsOf (dropWhile ?N ?t))" using 1 [OF refl False] .
    ultimately show ?thesis using False by (simp add: wordsOf.simps [of s] Let_def goodWords_def)
  qed
qed

lemma wordsOf_Nil: "wordsOf [] = []"
  by (simp add: wordsOf.simps [of "[]"])

lemma wordsOf_ws: "isWhiteSpace c \<Longrightarrow> wordsOf (c # s) = wordsOf s"
  by (simp add: wordsOf.simps [of "c # s"] wordsOf.simps [of s])

lemma wordsOf_word:
  assumes "w \<noteq> []" "list_all (\<lambda>c. \<not> isWhiteSpace c) w" "r = [] \<or> isWhiteSpace (hd r)"
  shows "wordsOf (w @ r) = w # wordsOf r"
proof -
  obtain c cs where w: "w = c # cs" using assms(1) by (cases w) auto
  have c: "\<not> isWhiteSpace c" using w assms(2) by simp
  have 1: "dropWhile isWhiteSpace (w @ r) = w @ r" using w c by simp
  have a: "\<forall>x\<in>set w. \<not> isWhiteSpace x" using assms(2) by (simp add: list_all_iff)
  have 2: "takeWhile (\<lambda>c. \<not> isWhiteSpace c) (w @ r) = w"
    using a assms(3) by (cases r) (auto simp: takeWhile_append2 takeWhile_eq_all_conv)
  have 3: "dropWhile (\<lambda>c. \<not> isWhiteSpace c) (w @ r) = r"
    using a assms(3) by (cases r) (auto simp: dropWhile_append2)
  have "wordsOf (w @ r) =
     (let t = dropWhile isWhiteSpace (w @ r) in
      if t = [] then []
      else takeWhile (\<lambda>c. \<not> isWhiteSpace c) t # wordsOf (dropWhile (\<lambda>c. \<not> isWhiteSpace c) t))"
    by (rule wordsOf.simps)
  then show ?thesis unfolding Let_def 1 2 3 using assms(1) by simp
qed

lemma wordsOf_joinWithSpace: "goodWords ws \<Longrightarrow> wordsOf (joinWithSpace ws) = ws"
proof (induction ws rule: joinWithSpace.induct)
  case 1 then show ?case by (simp add: wordsOf_Nil)
next
  case (2 w)
  then show ?case using wordsOf_word [of w "[]"] by (simp add: goodWords_def wordsOf_Nil)
next
  case (3 w v ws)
  have sp: "isWhiteSpace 0x20" by (simp add: isWhiteSpace_def)
  have "wordsOf (w @ 0x20 # joinWithSpace (v # ws)) = w # wordsOf (0x20 # joinWithSpace (v # ws))"
    using 3(2) sp by (intro wordsOf_word) (auto simp: goodWords_def)
  also have "\<dots> = w # wordsOf (joinWithSpace (v # ws))" using sp by (simp add: wordsOf_ws)
  also have "\<dots> = w # v # ws" using 3 by (simp add: goodWords_def)
  finally show ?case by simp
qed

lemma singleSpaces_append:
  "list_all (\<lambda>c. \<not> isWhiteSpace c) w \<Longrightarrow> singleSpaces (w @ r) = singleSpaces r"
  by (induction w) auto

lemma joinWithSpace_good:
  "goodWords ws \<Longrightarrow> singleSpaces (joinWithSpace ws) \<and> noEdgeWs (joinWithSpace ws)"
proof (induction ws rule: joinWithSpace.induct)
  case 1 then show ?case by (simp add: noEdgeWs_def)
next
  case (2 w)
  then have w: "w \<noteq> []" "list_all (\<lambda>c. \<not> isWhiteSpace c) w" by (auto simp: goodWords_def)
  have "singleSpaces w" using singleSpaces_append [OF w(2), of "[]"] by simp
  moreover have "noEdgeWs w" using w by (cases w) (auto simp: noEdgeWs_def list_all_iff)
  ultimately show ?case by simp
next
  case (3 w v ws)
  then have w: "w \<noteq> []" "list_all (\<lambda>c. \<not> isWhiteSpace c) w"
    and v: "v \<noteq> []" "list_all (\<lambda>c. \<not> isWhiteSpace c) v"
    and g: "goodWords (v # ws)" by (auto simp: goodWords_def)
  let ?j = "joinWithSpace (v # ws)"
  have jne: "?j \<noteq> []" using v by (cases ws) auto
  have IH: "singleSpaces ?j" "noEdgeWs ?j" using 3(1) [OF g] by auto
  obtain c cs where j: "?j = c # cs" using jne by (cases ?j) auto
  have c: "\<not> isWhiteSpace c" "\<not> isWhiteSpace (last ?j)" using IH(2) j by (auto simp: noEdgeWs_def)
  have "singleSpaces (w @ 0x20 # ?j)"
    using singleSpaces_append [OF w(2)] IH(1) j c by simp
  moreover have "noEdgeWs (w @ 0x20 # ?j)"
    using w c jne by (cases w) (auto simp: noEdgeWs_def)
  ultimately show ?case by simp
qed

lemma singleSpaces_no_newline: "singleSpaces s \<Longrightarrow> newlinesToSpaces s = s"
  by (induction s) (auto simp: newlinesToSpaces_def isWhiteSpace_def split: if_splits)

lemma dropTrailingWs_id: "s = [] \<or> \<not> isWhiteSpace (last s) \<Longrightarrow> dropTrailingWs s = s"
  by (induction s) (auto simp: list_all_iff split: if_splits)

lemma noEdgeWs_trim: "noEdgeWs s \<Longrightarrow> trim s = s"
  by (cases s) (auto simp: noEdgeWs_def trim_def dropTrailingWs_id simp del: dropTrailingWs.simps)

lemma cleanText_words: "cleanText x = joinWithSpace (wordsOf x)"
  using joinWithSpace_good [OF goodWords_wordsOf, of x]
  by (simp add: cleanText_def stripEnds_collapseWs singleSpaces_no_newline noEdgeWs_trim)

text \<open>
  Claim C9. For every input string \<open>x\<close>, \<open>cleanText\<close> is idempotent, and its
  result is the words of \<open>x\<close> joined by single spaces: every run of white space
  (newlines and tabs included) has become one U+0020, and the result neither starts nor
  ends with white space.
\<close>

theorem cleanText_idempotent_collapses:
  "cleanText (cleanText x) = cleanText x \<and>
   cleanText x = joinWithSpace (wordsOf x) \<and>
   singleSpaces (cleanText x) \<and> noEdgeWs (cleanText x)"
  using joinWithSpace_good [OF goodWords_wordsOf, of x] wordsOf_joinWithSpace [OF goodWords_wordsOf, of x]
  by (simp add: cleanText_words)

text \<open>
  The theorem at the text made of a space, \<open>a\<close>, a newline, a tab, \<open>b\<close> and a
  space (code units 32, 97, 10, 9, 98, 32), whose
  cleaned form is \<open>"a b"\<close>.
\<close>

theorem cleanText_idempotent_collapses_witness:
  "cleanText [32, 97, 10, 9, 98, 32] = [97, 32, 98] \<and>
   cleanText [97, 32, 98] = [97, 32, 98] \<and>
   joinWithSpace (wordsOf [32, 97, 10, 9, 98, 32]) = [97, 32, 98] \<and>
   singleSpaces [97, 32, 98] \<and> noEdgeWs [97, 32, 98]"
proof -
  have e: "cleanText [32, 97, 10, 9, 98, 32] = [97, 32, 98]"
    by (simp add: cleanText_def trim_def stripEnds_def newlinesToSpaces_def isWhiteSpace_def)
  note t = cleanText_idempotent_collapses [of "[32, 97, 10, 9, 98, 32]"]
  have 1: "cleanText [97, 32, 98] = [97, 32, 98]"
    using t [THEN conjunct1] by (simp only: e)
  have 2: "joinWithSpace (wordsOf [32, 97, 10, 9, 98, 32]) = [97, 32, 98]"
    using t [THEN conjunct2, THEN conjunct1] by (simp only: e)
  have 3: "singleSpaces [97, 32, 98]"
    using t [THEN conjunct2, THEN conjunct2, THEN conjunct1] by (simp only: e)
  have 4: "noEdgeWs [97, 32, 98]"
    using t [THEN conjunct2, THEN conjunct2, THEN conjunct2] by (simp only: e)
  show ?thesis using e 1 2 3 4 by (intro conjI)
qed

subsection \<open>parseDate (claim C1)\<close>

lemma tryPatterns_valid:
  "tryPatterns newDate ps text = Some d \<Longrightarrow>
     getTime d \<noteq> None \<and> (\<exists>p\<in>set ps. \<exists>ms. search p text = Some ms \<and> d = newDate (concat ms))"
  by (induction ps) (auto simp: Let_def split: option.splits if_splits)

lemma tryPatterns_rejected:
  "\<forall>p\<in>set ps. \<forall>ms. search p text = Some ms \<longrightarrow> getTime (newDate (concat ms)) = None \<Longrightarrow>
     tryPatterns newDate ps text = None"
  by (induction ps) (auto simp: Let_def split: option.splits)

text \<open>
  What holds for every text and every host constructor: \<open>parseDate\<close> returns
  \<open>null\<close> or a \<open>Date\<close> whose time value is a number, never an invalid date. It
  returns \<open>null\<close> when the text is empty, when none of the four patterns matches, and
  when the constructor rejects the matched text of every pattern that matches. A returned
  \<open>Date\<close> is the constructor's reading of the text matched by one of the patterns:
  \<open>parseDate\<close> has no calendar check of its own.
\<close>

lemma parseDate_never_invalid_date:
  "(parseDate newDate text = None \<or> (\<exists>t. parseDate newDate text = Some (Date (Some t)))) \<and>
   (text = [] \<longrightarrow> parseDate newDate text = None) \<and>
   ((\<forall>p\<in>set datePatterns. search p text = None) \<longrightarrow> parseDate newDate text = None) \<and>
   ((\<forall>p\<in>set datePatterns. \<forall>ms. search p text = Some ms \<longrightarrow> getTime (newDate (concat ms)) = None)
      \<longrightarrow> parseDate newDate text = None) \<and>
   (\<forall>d. parseDate newDate text = Some d \<longrightarrow>
      (\<exists>p\<in>set datePatterns. \<exists>ms. search p text = Some ms \<and> d = newDate (concat ms)))"
proof -
  have 1: "parseDate newDate text = None \<or> (\<exists>t. parseDate newDate text = Some (Date (Some t)))"
  proof (cases "parseDate newDate text")
    case None then show ?thesis by simp
  next
    case (Some d)
    then have "tryPatterns newDate datePatterns text = Some d"
      by (simp add: parseDate_def split: if_splits)
    then have "getTime d \<noteq> None" using tryPatterns_valid by blast
    then obtain t where "d = Date (Some t)" by (cases d) auto
    then show ?thesis using Some by simp
  qed
  have 2: "text = [] \<longrightarrow> parseDate newDate text = None" by (simp add: parseDate_def)
  have 4: "(\<forall>p\<in>set datePatterns. \<forall>ms. search p text = Some ms \<longrightarrow> getTime (newDate (concat ms)) = None)
      \<longrightarrow> parseDate newDate text = None"
    using tryPatterns_rejected [of datePatterns "text" newDate] by (simp add: parseDate_def)
  have 3: "(\<forall>p\<in>set datePatterns. search p text = None) \<longrightarrow> parseDate newDate text = None"
    using 4 by simp
  have 5: "\<forall>d. parseDate newDate text = Some d \<longrightarrow>
      (\<exists>p\<in>set datePatterns. \<exists>ms. search p text = Some ms \<and> d = newDate (concat ms))"
    using tryPatterns_valid [of newDate datePatterns "text"] by (simp add: parseDate_def split: if_splits)
  show ?thesis using 1 2 3 4 5 by (intro conjI)
qed

text \<open>
  Claim C1 says that a text whose calendar value is invalid, such as \<open>"2/29/2023"\<close>,
  gives \<open>null\<close>; the tests of the package list that text as "Non-leap year
  (invalid)". The first pattern matches the whole text, the constructor reads it as month
  2, day 29 of 2023 and counts the day on from 1 February, which gives 1 March 2023, and
  \<open>parseDate\<close> returns that date: the code evaluated at the failing input. The time
  value is midnight of 1 March 2023 (1677628800000 ms in UTC), taken as a local time.
\<close>

theorem parseDate_leap_day_2023:
  "parseDate (v8Date localToUTC other) (str ''2/29/2023'') =
     Some (Date (Some (localToUTC 1677628800000)))"
  by (simp add: parseDate_def datePatterns_def string_defs date_defs)

text \<open>
  The other texts of the tests, on a host in the UTC time zone: the three that the tests
  expect to be dates are dates, and the texts listed as invalid give \<open>null\<close>. The
  ISO text \<open>"2025-12-25"\<close> is first matched from its third character on by the first
  pattern (\<open>"25-12-25"\<close>, which the constructor rejects: month 25) and then as a
  whole by the third.
\<close>

lemma parseDate_test_dates:
  "parseDate utcDate (str ''1/1/1970'') = Some (Date (Some 0)) \<and>
   parseDate utcDate (str ''12/31/2099'') = Some (Date (Some 4102358400000)) \<and>
   parseDate utcDate (str ''2/29/2024'') = Some (Date (Some 1709164800000)) \<and>
   parseDate utcDate (str ''2025-12-25'') = Some (Date (Some 1766620800000)) \<and>
   parseDate utcDate (str ''due 12/25/25'') = Some (Date (Some 1766620800000))"
  by (simp add: parseDate_def datePatterns_def string_defs date_defs)

lemma parseDate_test_invalid:
  "parseDate utcDate [] = None \<and>
   parseDate utcDate (str ''not a date'') = None \<and>
   parseDate utcDate (str ''32/13/2025'') = None \<and>
   parseDate utcDate (str ''2025-13-32'') = None \<and>
   parseDate utcDate (str ''0000-00-00'') = None"
  by (simp add: parseDate_def datePatterns_def string_defs date_defs)

subsection \<open>Defaults of the extractors on an empty element (claim C3)\<close>

text \<open>
  Claim C3 says that on an element with empty or absent content every extractor returns
  its defined defaults, among them \<open>"Unknown Item"\<close> and \<open>"Zybook Activity"\<close>.
  On the empty element \<open>extractGrade\<close> returns the item name \<open>null\<close> and
  \<open>extractZybookIntegration\<close> the empty title: the code evaluated at the failing
  input.
\<close>

theorem extractors_empty_element:
  "extractGrade newDate (Attached emptyElement) =
     Some \<lparr>g_itemName = None, g_grade = str ''0'', g_maxGrade = str ''0'',
           g_percentage = Some (Num 0), g_feedback = None, g_dateModified = None\<rparr> \<and>
   extractZybookIntegration newDate (Attached emptyElement) =
     Some \<lparr>z_title = [], z_url = [], z_dueDate = None,
           z_completionStatus = str ''Not started'', z_progress = None\<rparr>"
  by (simp add: extractGrade_def extractZybookIntegration_def element_defs string_defs
      pattern_defs percentageOf_def parseFloat_def digitsValue_def round64_0 dueDateOf_def
      completionOf_def progressOf_def)

text \<open>
  The two other extractors have their defaults in place on the same element, and the
  helpers of the scraper return the defaults that the claim names.
\<close>

lemma defaults_in_place_empty_element:
  "extractAssignment newDate random (Attached emptyElement) =
     Some \<lparr>a_id = random, a_title = str ''Unknown Assignment'', a_description = [],
           a_dueDate = None, a_submissionStatus = not_submitted, a_maxGrade = Num 0,
           a_currentGrade = None, a_url = []\<rparr> \<and>
   extractFile (Attached emptyElement) =
     Some \<lparr>f_name = str ''Unknown File'', f_url = [], f_size = str ''Unknown size'',
           f_type = str ''unknown'', f_downloadUrl = []\<rparr>"
  by (simp add: extractAssignment_def extractFile_def fileTypeOf_def Let_def element_defs
      string_defs pattern_defs dueDateOf_def statusOf_def)

lemma others_empty_element:
  "extractGradeData newDate (Attached emptyElement) =
     Some \<lparr>g_itemName = Some (str ''Unknown Item''), g_grade = str ''0'', g_maxGrade = str ''0'',
           g_percentage = None, g_feedback = None, g_dateModified = None\<rparr> \<and>
   extractZybookData newDate (Attached emptyElement) =
     Some \<lparr>z_title = str ''Zybook Activity'', z_url = [], z_dueDate = None,
           z_completionStatus = str ''Not started'', z_progress = None\<rparr>"
  by (simp add: extractGradeData_def extractZybookData_def element_defs string_defs
      pattern_defs percentageOf_def parseFloat_def digitsValue_def round64_0 dueDateData_def)

subsection \<open>Percentage of a grade (claim C2)\<close>

text \<open>
  Claim C2 says that the percentage is \<open>null\<close> whenever the text of the maximum
  grade parses to 0. \<open>extractGrade\<close> (extractors.ts) computes
  \<open>maxGradeValue > 0 ? (gradeValue / maxGradeValue) * 100 : 0\<close>: for the grade
  \<open>"100"\<close> and the maximum \<open>"0"\<close> its percentage is the number 0, where the
  tests of the package expect \<open>null\<close>. The code evaluated at the failing input.
\<close>

theorem extractGrade_zero_maximum:
  "extractGrade newDate (Attached (gradeRow (str ''100'') (str ''0''))) =
     Some \<lparr>g_itemName = None, g_grade = str ''100'', g_maxGrade = str ''0'',
           g_percentage = Some (Num 0), g_feedback = None, g_dateModified = None\<rparr>"
  by (simp add: extractGrade_def element_defs string_defs pattern_defs percentageOf_def
      parseFloat_def digitsValue_def round64_0 round64_100)

text \<open>
  The helper \<open>extractGradeData\<close> of the scraper has \<open>null\<close> in that place
  (\<open>maxGradeValue > 0 ? ... : null\<close>) and returns it on the same row.
\<close>

lemma extractGradeData_zero_maximum:
  "extractGradeData newDate (Attached (gradeRow (str ''100'') (str ''0''))) =
     Some \<lparr>g_itemName = Some (str ''Unknown Item''), g_grade = str ''100'', g_maxGrade = str ''0'',
           g_percentage = None, g_feedback = None, g_dateModified = None\<rparr>"
  by (simp add: extractGradeData_def element_defs string_defs pattern_defs percentageOf_def
      parseFloat_def digitsValue_def round64_0 round64_100)

text \<open>
  A maximum grade that contains no number does not give \<open>null\<close> either: both
  extractors then divide by 100 (\<open>maxGradeMatch ? parseFloat(maxGradeMatch[1]) : 100\<close>).
  For the grade \<open>"85"\<close> and the maximum \<open>"Pass/Fail"\<close> the percentage is 85.
\<close>

lemma percentage_unparsable_maximum:
  "search numberPattern (str ''Pass/Fail'') = None \<and>
   extractGrade newDate (Attached (gradeRow (str ''85'') (str ''Pass/Fail''))) =
     Some \<lparr>g_itemName = None, g_grade = str ''85'', g_maxGrade = str ''Pass/Fail'',
           g_percentage = Some (Num 85), g_feedback = None, g_dateModified = None\<rparr> \<and>
   extractGradeData newDate (Attached (gradeRow (str ''85'') (str ''Pass/Fail''))) =
     Some \<lparr>g_itemName = Some (str ''Unknown Item''), g_grade = str ''85'',
           g_maxGrade = str ''Pass/Fail'', g_percentage = Some (Num 85), g_feedback = None,
           g_dateModified = None\<rparr>"
  by (simp add: extractGrade_def extractGradeData_def element_defs string_defs pattern_defs
      percentageOf_def parseFloat_def digitsValue_def round64_85 ratio_85_100
      del: numDivide.simps numTimes.simps)

text \<open>
  The percentage is the rounded product of a rounded quotient: for the grade \<open>"57"\<close>
  and the maximum \<open>"100"\<close> it is the number below 57.
\<close>

lemma percentage_is_rounded:
  "extractGradeData newDate (Attached (gradeRow (str ''57'') (str ''100''))) =
     Some \<lparr>g_itemName = Some (str ''Unknown Item''), g_grade = str ''57'', g_maxGrade = str ''100'',
           g_percentage = Some (Num (57 - 1 / 2 ^ 47)), g_feedback = None,
           g_dateModified = None\<rparr>"
  by (simp add: extractGradeData_def element_defs string_defs pattern_defs percentageOf_def
      parseFloat_def digitsValue_def round64_57 round64_100 ratio_57_100
      del: numDivide.simps numTimes.simps)

text \<open>
  The claim also says that the percentage is never \<open>NaN\<close> or an infinity. A numeral
  of 310 digits is read as the infinity by \<open>parseFloat\<close>; with such a numeral as
  grade and as maximum the percentage of both extractors is the quotient of two infinities,
  \<open>NaN\<close>.
\<close>

lemma foldl_digits_zeros:
  "foldl (\<lambda>a c. 10 * a + (c - 0x30)) a (replicate n 0x30) = (a::nat) * 10 ^ n"
  by (induction n arbitrary: a) auto

lemma digitsValue_hugeNumeral: "digitsValue hugeNumeral = 10 ^ 309"
  by (simp add: digitsValue_def hugeNumeral_def foldl_digits_zeros)

lemma hugeNumeral_digits: "list_all isDigit hugeNumeral \<and> hugeNumeral \<noteq> []"
  by (simp add: hugeNumeral_def isDigit_def list_all_iff)

lemma matchHere_number_digits:
  "list_all isDigit ds \<Longrightarrow> n \<le> length ds \<Longrightarrow>
   matchHere [Rep isDigit n None, Rep (chr 0x2E) 0 (Some 1), Rep isDigit 0 None] ds =
     Some [ds, [], []]"
  by (induction ds arbitrary: n) auto

lemma search_hugeNumeral: "search numberPattern hugeNumeral = Some [hugeNumeral, [], []]"
proof -
  obtain c cs where h: "hugeNumeral = c # cs" by (simp add: hugeNumeral_def)
  have "matchHere numberPattern hugeNumeral = Some [hugeNumeral, [], []]"
    unfolding numberPattern_def using hugeNumeral_digits
    by (intro matchHere_number_digits) (auto simp: h)
  then show ?thesis by (simp add: h)
qed

lemma parseFloat_hugeNumeral: "parseFloat hugeNumeral = PosInfinity"
proof -
  have d: "list_all isDigit hugeNumeral" using hugeNumeral_digits by simp
  then have w: "dropWhile isWhiteSpace hugeNumeral = hugeNumeral"
    by (simp add: hugeNumeral_def isWhiteSpace_def)
  have t: "takeWhile isDigit hugeNumeral = hugeNumeral" "dropWhile isDigit hugeNumeral = []"
    using d by (simp_all add: list_all_iff)
  have "parseFloat hugeNumeral = round64 (of_nat (digitsValue hugeNumeral))"
    using hugeNumeral_digits by (simp add: parseFloat_def w t digitsValue_def)
  also have "\<dots> = PosInfinity"
    unfolding digitsValue_hugeNumeral by (rule round64_overflow) simp
  finally show ?thesis .
qed

lemma percentageOf_hugeNumeral: "percentageOf fallback hugeNumeral hugeNumeral = Some NaN"
proof -
  have c: "concat [hugeNumeral, [], []] = hugeNumeral" by simp
  show ?thesis
    by (simp only: percentageOf_def search_hugeNumeral c parseFloat_hugeNumeral
        Let_def option.case numGreater.simps numDivide.simps numTimes.simps if_True)
qed

lemma trim_hugeNumeral: "trim hugeNumeral = hugeNumeral"
proof -
  have w: "dropWhile isWhiteSpace hugeNumeral = hugeNumeral"
    by (simp add: hugeNumeral_def isWhiteSpace_def)
  have "\<not> isWhiteSpace (last hugeNumeral)"
    by (simp add: hugeNumeral_def isWhiteSpace_def)
  then have "dropTrailingWs hugeNumeral = hugeNumeral" by (intro dropTrailingWs_id) simp
  then show ?thesis by (simp add: trim_def w)
qed

lemma percentage_not_a_number:
  "extractGrade newDate (Attached (gradeRow hugeNumeral hugeNumeral)) =
     Some \<lparr>g_itemName = None, g_grade = hugeNumeral, g_maxGrade = hugeNumeral,
           g_percentage = Some NaN, g_feedback = None, g_dateModified = None\<rparr> \<and>
   extractGradeData newDate (Attached (gradeRow hugeNumeral hugeNumeral)) =
     Some \<lparr>g_itemName = Some (str ''Unknown Item''), g_grade = hugeNumeral,
           g_maxGrade = hugeNumeral, g_percentage = Some NaN, g_feedback = None,
           g_dateModified = None\<rparr>"
proof -
  have n: "hugeNumeral \<noteq> []" using hugeNumeral_digits by simp
  have 1: "extractGrade newDate (Attached (gradeRow hugeNumeral hugeNumeral)) =
     Some \<lparr>g_itemName = None, g_grade = hugeNumeral, g_maxGrade = hugeNumeral,
           g_percentage = Some NaN, g_feedback = None, g_dateModified = None\<rparr>"
    using n
    by (simp add: extractGrade_def gradeRow_def leaf_def optText_def str_def trim_hugeNumeral
        percentageOf_hugeNumeral)
  have 2: "extractGradeData newDate (Attached (gradeRow hugeNumeral hugeNumeral)) =
     Some \<lparr>g_itemName = Some (str ''Unknown Item''), g_grade = hugeNumeral,
           g_maxGrade = hugeNumeral, g_percentage = Some NaN, g_feedback = None,
           g_dateModified = None\<rparr>"
    using n
    by (simp add: extractGradeData_def gradeRow_def leaf_def optText_def str_def trim_hugeNumeral
        percentageOf_hugeNumeral)
  show ?thesis using 1 2 by (intro conjI)
qed

subsection \<open>Type of a file (claim C8)\<close>

text \<open>
  Claim C8 says that a file whose type element is empty, whose URL has no extension and
  that has no icon gets the type \<open>"unknown"\<close>; the tests of the package expect
  \<open>"unknown"\<close> for the URL \<open>https://test.com/file\<close>. Both file extractors take the
  text after the last point of the whole URL, and here the last point is the one of the
  host name: the type is \<open>"com/file"\<close>. The code evaluated at the failing input.
\<close>

theorem file_type_without_extension:
  "extractFile (Attached (fileLink (str ''https://test.com/file''))) =
     Some \<lparr>f_name = str ''Unknown File'', f_url = str ''https://test.com/file'',
           f_size = str ''Unknown size'', f_type = str ''com/file'',
           f_downloadUrl = str ''https://test.com/file''\<rparr> \<and>
   extractFileData (Attached (fileLink (str ''https://test.com/file''))) =
     Some \<lparr>f_name = str ''Unknown File'', f_url = str ''https://test.com/file'',
           f_size = str ''Unknown size'', f_type = str ''com/file'',
           f_downloadUrl = str ''https://test.com/file''\<rparr>"
  by (simp add: extractFile_def extractFileData_def fileTypeOf_def fileTypeDataOf_def Let_def
      element_defs string_defs)

text \<open>
  In general, for an element whose type element gives no text and that has no icon,
  \<open>extractFile\<close> returns \<open>"unknown"\<close> when the URL contains no point and when
  nothing follows its last point, and otherwise the text after the last point in lower
  case, whatever it is: the code has no list of recognised extensions, so that
  \<open>https://test.com/file.xyz\<close> has the type \<open>"xyz"\<close>. The helper
  \<open>extractFileData\<close> of the scraper does not test whether the URL has a point: a
  URL without one is its own type.
\<close>

lemma splitOn_not_Nil: "splitOn k s \<noteq> []"
  by (induction s) (auto split: list.splits)

lemma splitOn_no_sep: "k \<notin> set s \<Longrightarrow> splitOn k s = [s]"
  by (induction s) auto

lemma splitOn_sep_length: "k \<in> set s \<Longrightarrow> length (splitOn k s) > 1"
proof (induction s)
  case Nil then show ?case by simp
next
  case (Cons c cs)
  show ?case
  proof (cases "c = k")
    case True
    then show ?thesis using splitOn_not_Nil [of k cs] by (cases "splitOn k cs") auto
  next
    case False
    then have "k \<in> set cs" using Cons.prems by simp
    then have "length (splitOn k cs) > 1" by (rule Cons.IH)
    then show ?thesis using False by (cases "splitOn k cs") auto
  qed
qed

lemma last_splitOn:
  "k \<notin> set ext \<Longrightarrow> last (splitOn k (pre @ k # ext)) = ext"
proof (induction pre)
  case Nil
  then show ?case by (simp add: splitOn_no_sep)
next
  case (Cons c pre)
  have len: "length (splitOn k (pre @ k # ext)) > 1" by (rule splitOn_sep_length) simp
  then obtain p q ps where ps: "splitOn k (pre @ k # ext) = p # q # ps"
    by (cases "splitOn k (pre @ k # ext)"; cases "tl (splitOn k (pre @ k # ext))") auto
  show ?case using Cons ps by auto
qed

lemma toLowerCase_Nil: "(toLowerCase s = []) = (s = [])"
  by (simp add: toLowerCase_def)

lemma fileTypeOf_no_hints:
  "fileTypeOf [] url None =
     (if url \<noteq> [] \<and> length (splitOn 0x2E url) > 1 \<and> last (splitOn 0x2E url) \<noteq> []
      then toLowerCase (last (splitOn 0x2E url)) else str ''unknown'')"
proof -
  have u: "str ''unknown'' \<noteq> []" by (simp add: str_def)
  show ?thesis using u by (simp add: fileTypeOf_def Let_def toLowerCase_Nil)
qed

lemma fileTypeDataOf_no_hints:
  "url \<noteq> [] \<Longrightarrow> fileTypeDataOf [] url =
     (if last (splitOn 0x2E url) \<noteq> [] then toLowerCase (last (splitOn 0x2E url))
      else str ''unknown'')"
  by (simp add: fileTypeDataOf_def Let_def toLowerCase_Nil)

lemma extractFile_type:
  assumes "orElse (optText (querySelector el (str ''.filetype, .file-type, .mimetype''))) [] = []"
    and "querySelector el (str ''.iconlarge, .activityicon, .icon, img'') = None"
    and "extractFile (Attached el) = Some r"
  shows "f_type r = fileTypeOf [] (f_url r) None"
  using assms(3) by (auto simp: extractFile_def Let_def assms(1) assms(2))

lemma extractFileData_type:
  assumes "orElse (optText (querySelector el (str ''.filetype, .file-type, .mimetype''))) [] = []"
    and "extractFileData (Attached el) = Some r"
  shows "f_type r = fileTypeDataOf [] (f_url r)"
  using assms(2) by (auto simp: extractFileData_def Let_def assms(1))

lemma file_type_is_text_after_last_point:
  assumes "orElse (optText (querySelector el (str ''.filetype, .file-type, .mimetype''))) [] = []"
    and "querySelector el (str ''.iconlarge, .activityicon, .icon, img'') = None"
    and "extractFile (Attached el) = Some r"
    and "extractFileData (Attached el) = Some r'"
  shows "(0x2E \<notin> set (f_url r) \<longrightarrow> f_type r = str ''unknown'') \<and>
         (\<forall>pre ext. f_url r = pre @ 0x2E # ext \<and> 0x2E \<notin> set ext \<longrightarrow>
            (ext = [] \<longrightarrow> f_type r = str ''unknown'') \<and>
            (ext \<noteq> [] \<longrightarrow> f_type r = toLowerCase ext)) \<and>
         (\<forall>pre ext. f_url r' = pre @ 0x2E # ext \<and> 0x2E \<notin> set ext \<and> ext \<noteq> [] \<longrightarrow>
            f_type r' = toLowerCase ext) \<and>
         (0x2E \<notin> set (f_url r') \<and> f_url r' \<noteq> [] \<longrightarrow> f_type r' = toLowerCase (f_url r'))"
proof -
  note t = extractFile_type [OF assms(1,2,3), unfolded fileTypeOf_no_hints]
  have 1: "0x2E \<notin> set (f_url r) \<longrightarrow> f_type r = str ''unknown''"
    using t by (auto simp: splitOn_no_sep)
  have 2: "\<forall>pre ext. f_url r = pre @ 0x2E # ext \<and> 0x2E \<notin> set ext \<longrightarrow>
            (ext = [] \<longrightarrow> f_type r = str ''unknown'') \<and>
            (ext \<noteq> [] \<longrightarrow> f_type r = toLowerCase ext)"
  proof (intro allI impI)
    fix pre ext assume a: "f_url r = pre @ 0x2E # ext \<and> 0x2E \<notin> set ext"
    then have l: "last (splitOn 0x2E (f_url r)) = ext" by (simp add: last_splitOn)
    have "0x2E \<in> set (f_url r)" using a by simp
    then have "length (splitOn 0x2E (f_url r)) > 1" by (rule splitOn_sep_length)
    moreover have "f_url r \<noteq> []" using a by simp
    ultimately show "(ext = [] \<longrightarrow> f_type r = str ''unknown'') \<and>
            (ext \<noteq> [] \<longrightarrow> f_type r = toLowerCase ext)"
      using t l by simp
  qed
  have 3: "\<forall>pre ext. f_url r' = pre @ 0x2E # ext \<and> 0x2E \<notin> set ext \<and> ext \<noteq> [] \<longrightarrow>
            f_type r' = toLowerCase ext"
  proof (intro allI impI)
    fix pre ext
    assume a: "f_url r' = pre @ 0x2E # ext \<and> 0x2E \<notin> set ext \<and> ext \<noteq> []"
    then have l: "last (splitOn 0x2E (f_url r')) = ext" by (simp add: last_splitOn)
    have "f_url r' \<noteq> []" using a by simp
    from extractFileData_type [OF assms(1) assms(4)] fileTypeDataOf_no_hints [OF this]
    show "f_type r' = toLowerCase ext"
      using l a by simp
  qed
  have 4: "0x2E \<notin> set (f_url r') \<and> f_url r' \<noteq> [] \<longrightarrow> f_type r' = toLowerCase (f_url r')"
  proof
    assume a: "0x2E \<notin> set (f_url r') \<and> f_url r' \<noteq> []"
    then have "last (splitOn 0x2E (f_url r')) = f_url r'" by (simp add: splitOn_no_sep)
    with extractFileData_type [OF assms(1) assms(4)] fileTypeDataOf_no_hints [of "f_url r'"] a
    show "f_type r' = toLowerCase (f_url r')" by simp
  qed
  show ?thesis using 1 2 3 4 by (intro conjI)
qed

lemma file_type_unrecognized_extension:
  "extractFile (Attached (fileLink (str ''https://test.com/file.xyz''))) =
     Some \<lparr>f_name = str ''Unknown File'', f_url = str ''https://test.com/file.xyz'',
           f_size = str ''Unknown size'', f_type = str ''xyz'',
           f_downloadUrl = str ''https://test.com/file.xyz''\<rparr>"
  by (simp add: extractFile_def fileTypeOf_def Let_def element_defs string_defs)

subsection \<open>The browser on the exit paths of scrapeAll (claim C4)\<close>

text \<open>
  Claim C4 says that the browser is closed on every exit path of the operation that
  scrapes everything. \<open>scrapeAll\<close> has no \<open>finally\<close>: on a site that shows no
  login form \<open>login\<close> throws, and \<open>scrapeAll\<close> returns the error with the
  browser that it launched still running and still held by the scraper. The code evaluated
  at the failing input.
\<close>

theorem scrapeAll_login_failure:
  "scrapeAll (siteOf blankDocument) newDate randoms cred initialState =
     (Inl (Error (str ''Login failed: Could not find email/username input field'')),
      \<lparr>browser = Some 0, page = Some blankDocument, running = [0], launched = 1, actions = []\<rparr>)"
  by (simp add: scrapeAll_def scraper_defs str_def)

text \<open>
  A call of \<open>close\<close> after that failure does complete and closes the browser. The
  wrapper \<open>scrapeMoodle\<close>, which has the \<open>finally\<close>, launches a browser itself
  before \<open>scrapeAll\<close> launches another one, and closes only the second: on a site
  where every step succeeds the first browser is still running at the end.
\<close>

lemma close_after_login_failure:
  "close (siteOf blankDocument)
     \<lparr>browser = Some 0, page = Some blankDocument, running = [0], launched = 1, actions = []\<rparr> =
     (Inr (), \<lparr>browser = None, page = None, running = [], launched = 1, actions = []\<rparr>)"
  by (simp add: close_def siteOf_def)

lemma scrapeMoodle_leaves_first_browser:
  "scrapeMoodle (siteOf coursePage) newDate randoms cred =
     (Inr \<lparr>assignments = [], grades = [], files = [], zybookIntegrations = []\<rparr>,
      \<lparr>browser = None, page = None, running = [0], launched = 2,
       actions = [Typed (str ''input[name=\"username\"]'') (email cred),
                  Typed (str ''input[name=\"password\"]'') (password cred),
                  Clicked (str ''button[type=\"submit\"]''),
                  Typed (str ''input[name=\"username\"]'') (email cred),
                  Typed (str ''input[name=\"password\"]'') (password cred),
                  Clicked (str ''button[type=\"submit\"]'')]\<rparr>)"
  by (simp add: scrapeMoodle_def scrapeAll_def scraper_defs coursePage_def str_def
      scrapeAssignments_def scrapeGrades_def scrapeFiles_def scrapeZybookIntegrations_def
      gradesLinkSelector_def Let_def)

subsection \<open>Login on a form with missing controls (claim C6)\<close>

text \<open>
  Claim C6 says that \<open>login\<close> never types the credentials when the user name field,
  the password field or the submit control cannot be found. \<open>login\<close> of the scraper
  looks for the submit control only after it has typed both: on a form with the two fields
  and no submit control it fails with "Could not find login button", and the e-mail
  address and the password have been typed. The code evaluated at the failing input.
\<close>

theorem login_types_before_button_lookup:
  "login (siteOf formWithoutSubmit) cred
     \<lparr>browser = Some 0, page = Some blankDocument, running = [0], launched = 1, actions = []\<rparr> =
     (Inl (Error (str ''Login failed: Could not find login button'')),
      \<lparr>browser = Some 0, page = Some formWithoutSubmit, running = [0], launched = 1,
       actions = [Typed (str ''input[name=\"username\"]'') (email cred),
                  Typed (str ''input[name=\"password\"]'') (password cred)]\<rparr>)"
  by (simp add: scraper_defs formWithoutSubmit_def str_def)

text \<open>
  \<open>performLogin\<close> of the authenticator resolves the three controls first: on the same
  form it fails and nothing has been typed or clicked.
\<close>

lemma performLogin_missing_submit:
  "performLogin (siteOf formWithoutSubmit) cred csrfToken formWithoutSubmit st =
     (Inl (Error (str ''Could not locate all required login form elements'')), st)"
  by (simp add: performLogin_def findUsernameField_def findPasswordField_def findSubmitButton_def
      formWithoutSubmit_def str_def)

subsection \<open>isSessionValid (claim C10)\<close>

lemma firstPresent_None:
  "(firstPresent d sels = Inr None) = (\<forall>sel\<in>set sels. query d sel = Inr False)"
  by (induction sels) (auto split: sum.splits)

text \<open>
  Claim C10. \<open>isSessionValid\<close> never throws: it always returns a boolean. Without a
  page it returns false; when the navigation fails it returns false; when a login indicator
  is found, or its lookup fails, it returns false; and it returns true exactly when there is
  a page, the navigation succeeds and every login indicator is looked up and not found.
\<close>

theorem isSessionValid_never_throws:
  "(\<exists>b. fst (isSessionValid h cred st) = Inr b) \<and>
   (page st = None \<longrightarrow> fst (isSessionValid h cred st) = Inr False) \<and>
   (\<forall>e. goto h (classUrl cred) = Inl e \<longrightarrow> fst (isSessionValid h cred st) = Inr False) \<and>
   (\<forall>d. goto h (classUrl cred) = Inr d \<and> (\<exists>sel\<in>set loginIndicators. query d sel \<noteq> Inr False) \<longrightarrow>
        fst (isSessionValid h cred st) = Inr False) \<and>
   ((fst (isSessionValid h cred st) = Inr True) =
      (page st \<noteq> None \<and>
       (\<exists>d. goto h (classUrl cred) = Inr d \<and> (\<forall>sel\<in>set loginIndicators. query d sel = Inr False))))"
proof -
  have n: "\<And>d. (firstPresent d loginIndicators = Inr None) =
             (\<forall>sel\<in>set loginIndicators. query d sel = Inr False)"
    by (rule firstPresent_None)
  show ?thesis
    by (cases "page st"; cases "goto h (classUrl cred)")
       (auto simp: isSessionValid_def n [symmetric] split: sum.splits option.splits)
qed

text \<open>
  The theorem at a scraper without a page, at a host that is offline, at a page that shows
  a login form and at the dashboard.
\<close>

theorem isSessionValid_never_throws_witness:
  "fst (isSessionValid (siteOf blankDocument) someCredentials initialState) = Inr False \<and>
   fst (isSessionValid offlineHost someCredentials (openedOn blankDocument)) = Inr False \<and>
   fst (isSessionValid (siteOf formWithoutSubmit) someCredentials (openedOn blankDocument)) = Inr False \<and>
   fst (isSessionValid (siteOf dashboardPage) someCredentials (openedOn blankDocument)) = Inr True"
proof -
  have a: "fst (isSessionValid (siteOf blankDocument) someCredentials initialState) = Inr False"
    using isSessionValid_never_throws [of "siteOf blankDocument" someCredentials initialState]
    by (simp add: initialState_def)
  have b: "fst (isSessionValid offlineHost someCredentials (openedOn blankDocument)) = Inr False"
    using isSessionValid_never_throws [of offlineHost someCredentials "openedOn blankDocument"]
    by (simp add: offlineHost_def)
  have "goto (siteOf formWithoutSubmit) (classUrl someCredentials) = Inr formWithoutSubmit \<and>
        (\<exists>sel\<in>set loginIndicators. query formWithoutSubmit sel \<noteq> Inr False)"
    by (simp add: siteOf_def formWithoutSubmit_def loginIndicators_def str_def)
  then have c: "fst (isSessionValid (siteOf formWithoutSubmit) someCredentials (openedOn blankDocument)) = Inr False"
    using isSessionValid_never_throws [of "siteOf formWithoutSubmit" someCredentials "openedOn blankDocument"]
    by blast
  have "page (openedOn blankDocument) \<noteq> None \<and>
        (\<exists>d. goto (siteOf dashboardPage) (classUrl someCredentials) = Inr d \<and>
             (\<forall>sel\<in>set loginIndicators. query d sel = Inr False))"
    by (simp add: siteOf_def dashboardPage_def loginIndicators_def str_def openedOn_def)
  then have d: "fst (isSessionValid (siteOf dashboardPage) someCredentials (openedOn blankDocument)) = Inr True"
    using isSessionValid_never_throws [of "siteOf dashboardPage" someCredentials "openedOn blankDocument"]
    by blast
  show ?thesis using a b c d by (intro conjI)
qed

subsection \<open>The wait for the second factor (claim C7)\<close>

lemma waitLoop_step:
  assumes "elapsed < maxWaitTime" and "detect2FA (docs k) = Inr True"
    and "isOnDashboard (docs k) = Inr False" and "content (docs k) = Inr c"
  shows "\<exists>duo'. waitLoop docs k elapsed duo = waitLoop docs (Suc k) (elapsed + checkInterval) duo'"
  using assms by (subst waitLoop.simps) auto

lemma waitLoop_reaches:
  assumes "\<forall>j. k \<le> j \<and> j < m \<longrightarrow>
             detect2FA (docs j) = Inr True \<and> isOnDashboard (docs j) = Inr False \<and>
             (\<exists>c. content (docs j) = Inr c)"
    and "k \<le> m" and "m \<le> 150"
  shows "\<exists>duo'. waitLoop docs k (checkInterval * k) duo = waitLoop docs m (checkInterval * m) duo'"
  using assms(1,2)
proof (induction "m - k" arbitrary: k duo)
  case 0
  then have "k = m" by simp
  then show ?case by blast
next
  case (Suc n)
  then have k: "k < m" by simp
  then have e: "checkInterval * k < maxWaitTime"
    using assms(3) by (simp add: maxWaitTime_def checkInterval_def)
  obtain c where p: "detect2FA (docs k) = Inr True" "isOnDashboard (docs k) = Inr False"
      "content (docs k) = Inr c"
    using Suc.prems(1) k by blast
  from waitLoop_step [where docs=docs and k=k, OF e p] obtain duo' where
    s: "waitLoop docs k (checkInterval * k) duo =
       waitLoop docs (Suc k) (checkInterval * k + checkInterval) duo'" by blast
  have "\<exists>duo''. waitLoop docs (Suc k) (checkInterval * Suc k) duo' =
          waitLoop docs m (checkInterval * m) duo''"
    using Suc.hyps(2) Suc.prems k by (intro Suc.hyps(1)) auto
  then show ?case using s by (simp add: add.commute)
qed

lemma waitLoop_ceiling: "waitLoop docs k (checkInterval * 150) duo = Inl timeoutError"
  by (subst waitLoop.simps) (simp add: maxWaitTime_def checkInterval_def timeoutError_def)

lemma waitLoop_done:
  assumes "m < 150" and "detect2FA (docs m) = Inr still2FA"
    and "isOnDashboard (docs m) = Inr onDashboard" and "content (docs m) = Inr c"
    and "\<not> still2FA \<or> onDashboard"
  shows "waitLoop docs m (checkInterval * m) duo = Inr ()"
proof -
  have "checkInterval * m < maxWaitTime"
    using assms(1) by (simp add: maxWaitTime_def checkInterval_def)
  then show ?thesis using assms(2-) by (subst waitLoop.simps) auto
qed

lemma waitLoop_error:
  assumes "m < 150"
    and "detect2FA (docs m) = Inl e \<or>
         (\<exists>still2FA. detect2FA (docs m) = Inr still2FA) \<and> isOnDashboard (docs m) = Inl e"
  shows "waitLoop docs m (checkInterval * m) duo = Inl e"
proof -
  have "checkInterval * m < maxWaitTime"
    using assms(1) by (simp add: maxWaitTime_def checkInterval_def)
  then show ?thesis using assms(2) by (subst waitLoop.simps) auto
qed

lemma waitLoop_bounded:
  assumes "\<forall>j. k \<le> j \<and> j < 150 \<longrightarrow> docs j = docs' j" and "k \<le> 150"
  shows "waitLoop docs k (checkInterval * k) duo = waitLoop docs' k (checkInterval * k) duo"
  using assms
proof (induction "150 - k" arbitrary: k duo)
  case 0
  then have "k = 150" by simp
  then show ?case
    by (subst waitLoop.simps, subst (2) waitLoop.simps)
       (simp add: maxWaitTime_def checkInterval_def)
next
  case (Suc n)
  then have k: "k < 150" by simp
  have d: "docs k = docs' k" using Suc.prems(1) k by simp
  have "waitLoop docs (Suc k) (checkInterval * Suc k) duo' =
        waitLoop docs' (Suc k) (checkInterval * Suc k) duo'" for duo'
  proof (rule Suc.hyps(1))
    show "n = 150 - Suc k" using Suc.hyps(2) by simp
    show "\<forall>j. Suc k \<le> j \<and> j < 150 \<longrightarrow> docs j = docs' j" using Suc.prems(1) by simp
    show "Suc k \<le> 150" using k by simp
  qed
  then have IH: "\<And>duo'. waitLoop docs (Suc k) (checkInterval * k + checkInterval) duo' =
                   waitLoop docs' (Suc k) (checkInterval * k + checkInterval) duo'"
    by (simp add: add.commute)
  show ?case
    apply (subst waitLoop.simps)
    apply (subst (2) waitLoop.simps)
    unfolding d IH
    by (rule refl)
qed

text \<open>
  Claim C7, as amended. The loop polls every \<open>checkInterval\<close> = 2000 ms while
  \<open>elapsed\<close> is below \<open>maxWaitTime\<close> = 300000 ms: it makes at most 150 polls,
  always ends, and its result depends on the first 150 documents only.

  \<^item> When at each of the 150 polls a challenge marker is found, no dashboard marker is found
    and the content of the page can be read, the result is the timeout error.
  \<^item> When that holds up to a poll before the ceiling at which the challenge markers have
    gone, or at which a dashboard marker is found (whether or not challenge markers are
    still there), the result is success.
  \<^item> When that holds up to a poll before the ceiling at which the lookup of the challenge
    markers or of the dashboard markers fails, the result is the error of that lookup. The
    code looks for no marker of a denied challenge.
\<close>

theorem waitFor2FACompletion_bounded:
  "((\<forall>k<150. detect2FA (docs k) = Inr True \<and> isOnDashboard (docs k) = Inr False \<and>
             (\<exists>c. content (docs k) = Inr c)) \<longrightarrow>
      waitFor2FACompletion docs = Inl timeoutError) \<and>
   (\<forall>m<150.
      (\<forall>k<m. detect2FA (docs k) = Inr True \<and> isOnDashboard (docs k) = Inr False \<and>
             (\<exists>c. content (docs k) = Inr c)) \<and>
      (\<exists>still2FA onDashboard c.
         detect2FA (docs m) = Inr still2FA \<and> isOnDashboard (docs m) = Inr onDashboard \<and>
         content (docs m) = Inr c \<and> (\<not> still2FA \<or> onDashboard)) \<longrightarrow>
      waitFor2FACompletion docs = Inr ()) \<and>
   (\<forall>m<150. \<forall>e.
      (\<forall>k<m. detect2FA (docs k) = Inr True \<and> isOnDashboard (docs k) = Inr False \<and>
             (\<exists>c. content (docs k) = Inr c)) \<and>
      (detect2FA (docs m) = Inl e \<or>
       (\<exists>still2FA. detect2FA (docs m) = Inr still2FA) \<and> isOnDashboard (docs m) = Inl e) \<longrightarrow>
      waitFor2FACompletion docs = Inl e) \<and>
   (\<forall>docs'. (\<forall>k<150. docs' k = docs k) \<longrightarrow>
      waitFor2FACompletion docs' = waitFor2FACompletion docs)"
proof (intro conjI allI impI)
  assume "\<forall>k<150. detect2FA (docs k) = Inr True \<and> isOnDashboard (docs k) = Inr False \<and>
             (\<exists>c. content (docs k) = Inr c)"
  then have "\<exists>duo'. waitLoop docs 0 (checkInterval * 0) False =
               waitLoop docs 150 (checkInterval * 150) duo'"
    by (intro waitLoop_reaches) auto
  then show "waitFor2FACompletion docs = Inl timeoutError"
    by (auto simp: waitFor2FACompletion_def waitLoop_ceiling)
next
  fix m :: nat
  assume m: "m < 150"
    and a: "(\<forall>k<m. detect2FA (docs k) = Inr True \<and> isOnDashboard (docs k) = Inr False \<and>
             (\<exists>c. content (docs k) = Inr c)) \<and>
      (\<exists>still2FA onDashboard c.
         detect2FA (docs m) = Inr still2FA \<and> isOnDashboard (docs m) = Inr onDashboard \<and>
         content (docs m) = Inr c \<and> (\<not> still2FA \<or> onDashboard))"
  then have "\<exists>duo'. waitLoop docs 0 (checkInterval * 0) False =
               waitLoop docs m (checkInterval * m) duo'"
    by (intro waitLoop_reaches) auto
  moreover have "\<And>duo'. waitLoop docs m (checkInterval * m) duo' = Inr ()"
    using a waitLoop_done [OF m] by blast
  ultimately show "waitFor2FACompletion docs = Inr ()"
    by (auto simp: waitFor2FACompletion_def)
next
  fix m :: nat and e
  assume m: "m < 150"
    and a: "(\<forall>k<m. detect2FA (docs k) = Inr True \<and> isOnDashboard (docs k) = Inr False \<and>
             (\<exists>c. content (docs k) = Inr c)) \<and>
      (detect2FA (docs m) = Inl e \<or>
       (\<exists>still2FA. detect2FA (docs m) = Inr still2FA) \<and> isOnDashboard (docs m) = Inl e)"
  then have "\<exists>duo'. waitLoop docs 0 (checkInterval * 0) False =
               waitLoop docs m (checkInterval * m) duo'"
    by (intro waitLoop_reaches) auto
  moreover have "\<And>duo'. waitLoop docs m (checkInterval * m) duo' = Inl e"
    using a waitLoop_error [OF m] by blast
  ultimately show "waitFor2FACompletion docs = Inl e"
    by (auto simp: waitFor2FACompletion_def)
next
  fix docs'
  assume "\<forall>k<150. docs' k = docs k"
  then show "waitFor2FACompletion docs' = waitFor2FACompletion docs"
    using waitLoop_bounded [of 0 docs' docs False] by (simp add: waitFor2FACompletion_def)
qed

text \<open>
  The claim as stated fails: it says that the result is the timeout failure whenever the
  challenge markers persist past the ceiling. The loop ends with success as soon as a poll finds no challenge
  marker or finds a dashboard marker (\<open>if (!still2FA || onDashboard) return\<close>): on a
  dashboard that still embeds the Duo frame the challenge markers are found at every poll,
  and the wait succeeds at the first one.
\<close>

theorem waitFor2FACompletion_dashboard_counterexample:
  "detect2FA framedDashboardPage = Inr True \<and>
   waitFor2FACompletion (\<lambda>k. framedDashboardPage) = Inr ()"
  by (simp add: waitFor2FACompletion_def waitLoop.simps [of _ 0 0] maxWaitTime_def detect2FA_def
      isOnDashboard_def framedDashboardPage_def str_def)

text \<open>
  The theorem at a page that shows the challenge for ever (timeout), at one that shows it
  for three polls and then the dashboard, at one that shows it for three polls and then the
  dashboard with the Duo frame still embedded, and at one that shows it for three polls and
  is closed at the fourth.
\<close>

theorem waitFor2FACompletion_bounded_witness:
  "waitFor2FACompletion (\<lambda>k. challengePage) = Inl timeoutError \<and>
   waitFor2FACompletion (\<lambda>k. if k < 3 then challengePage else dashboardPage) = Inr () \<and>
   waitFor2FACompletion (\<lambda>k. if k < 3 then challengePage else framedDashboardPage) = Inr () \<and>
   waitFor2FACompletion (\<lambda>k. if k < 3 then challengePage else closedPage) =
     Inl (Error (str ''Target closed''))"
proof -
  have c: "detect2FA challengePage = Inr True \<and> isOnDashboard challengePage = Inr False \<and>
           (\<exists>c. content challengePage = Inr c)"
    by (simp add: detect2FA_def isOnDashboard_def challengePage_def str_def)
  have d: "detect2FA dashboardPage = Inr False \<and> isOnDashboard dashboardPage = Inr True \<and>
           content dashboardPage = Inr (str ''<div class=\"dashboard\"></div>'')"
    by (simp add: detect2FA_def isOnDashboard_def dashboardPage_def str_def toLowerCase_def)
  have f: "detect2FA framedDashboardPage = Inr True \<and>
           isOnDashboard framedDashboardPage = Inr True \<and>
           (\<exists>c. content framedDashboardPage = Inr c)"
    by (simp add: detect2FA_def isOnDashboard_def framedDashboardPage_def str_def)
  have x: "detect2FA closedPage = Inl (Error (str ''Target closed''))"
    by (simp add: detect2FA_def closedPage_def)
  have 1: "waitFor2FACompletion (\<lambda>k. challengePage) = Inl timeoutError"
    using waitFor2FACompletion_bounded [of "\<lambda>k. challengePage", THEN conjunct1] c by simp
  let ?docs = "\<lambda>k::nat. if k < 3 then challengePage else dashboardPage"
  have "(3::nat) < 150 \<and>
        (\<forall>k<3. detect2FA (?docs k) = Inr True \<and> isOnDashboard (?docs k) = Inr False \<and>
                (\<exists>c. content (?docs k) = Inr c)) \<and>
        (\<exists>still2FA onDashboard c.
           detect2FA (?docs 3) = Inr still2FA \<and> isOnDashboard (?docs 3) = Inr onDashboard \<and>
           content (?docs 3) = Inr c \<and> (\<not> still2FA \<or> onDashboard))"
    using c d by auto
  then have 2: "waitFor2FACompletion ?docs = Inr ()"
    using waitFor2FACompletion_bounded [of ?docs, THEN conjunct2, THEN conjunct1] by blast
  let ?docs' = "\<lambda>k::nat. if k < 3 then challengePage else framedDashboardPage"
  have "(3::nat) < 150 \<and>
        (\<forall>k<3. detect2FA (?docs' k) = Inr True \<and> isOnDashboard (?docs' k) = Inr False \<and>
                (\<exists>c. content (?docs' k) = Inr c)) \<and>
        (\<exists>still2FA onDashboard c.
           detect2FA (?docs' 3) = Inr still2FA \<and> isOnDashboard (?docs' 3) = Inr onDashboard \<and>
           content (?docs' 3) = Inr c \<and> (\<not> still2FA \<or> onDashboard))"
    using c f by auto
  then have 3: "waitFor2FACompletion ?docs' = Inr ()"
    using waitFor2FACompletion_bounded [of ?docs', THEN conjunct2, THEN conjunct1] by blast
  let ?docs'' = "\<lambda>k::nat. if k < 3 then challengePage else closedPage"
  have "(3::nat) < 150 \<and>
        (\<forall>k<3. detect2FA (?docs'' k) = Inr True \<and> isOnDashboard (?docs'' k) = Inr False \<and>
                (\<exists>c. content (?docs'' k) = Inr c)) \<and>
        (detect2FA (?docs'' 3) = Inl (Error (str ''Target closed'')) \<or>
         (\<exists>still2FA. detect2FA (?docs'' 3) = Inr still2FA) \<and>
         isOnDashboard (?docs'' 3) = Inl (Error (str ''Target closed'')))"
    using c x by simp
  then have 4: "waitFor2FACompletion ?docs'' = Inl (Error (str ''Target closed''))"
    using waitFor2FACompletion_bounded [of ?docs'', THEN conjunct2, THEN conjunct2, THEN conjunct1]
    by blast
  show ?thesis using 1 2 3 4 by (intro conjI)
qed

subsection \<open>Failed elements in the collections (claim C5)\<close>

text \<open>
  The loops of the scrape methods keep, in order, the records of the elements whose
  helper returns a record: they are \<open>List.map_filter\<close> of the helper (for the
  assignments, of the helper at the element and the number of the element).
\<close>

lemma collect_map_filter: "collect extract es = List.map_filter extract es"
  by (induction es) (auto simp: List.map_filter_simps split: option.splits)

lemma collectAssignments_map_filter:
  "collectAssignments newDate randoms i es =
     List.map_filter (\<lambda>(j, element). extractAssignmentData newDate (randoms j) element)
       (List.enumerate i es)"
  by (induction es arbitrary: i) (auto simp: List.map_filter_simps split: option.splits)

lemma map_filter_append:
  "List.map_filter f (xs @ ys) = List.map_filter f xs @ List.map_filter f ys"
  by (simp add: List.map_filter_def)

lemma map_filter_all_None: "\<forall>x\<in>set xs. f x = None \<Longrightarrow> List.map_filter f xs = []"
  by (induction xs) (auto simp: List.map_filter_simps)

lemma detached_null:
  "extractAssignment newDate r (Detached err) = None \<and>
   extractAssignmentData newDate r (Detached err) = None \<and>
   extractGradeData newDate (Detached err) = None \<and>
   extractFileData (Detached err) = None \<and>
   extractZybookData newDate (Detached err) = None"
  by (simp add: extractAssignment_def extractAssignmentData_def extractGradeData_def
      extractFileData_def extractZybookData_def)

lemma scrapeAssignments_elements:
  assumes "page st = Some d"
  shows "scrapeAssignments newDate randoms st =
      Inr (case queryAll d assignmentSelector of
             Inl e \<Rightarrow> []
           | Inr es \<Rightarrow>
               List.map_filter (\<lambda>(i, element). extractAssignmentData newDate (randoms i) element)
                 (List.enumerate 0 es))"
  using assms by (simp add: scrapeAssignments_def collectAssignments_map_filter split: sum.splits)

lemma scrapeGrades_elements:
  assumes "page st = Some d"
  shows "fst (scrapeGrades h newDate st) =
      Inr (case query d gradesLinkSelector of
             Inl e \<Rightarrow> []
           | Inr found \<Rightarrow>
               if found then
                 (case clickAndWait h gradesLinkSelector of
                    Inl e \<Rightarrow> []
                  | Inr d' \<Rightarrow>
                      (case queryAll d' gradeRowSelector of
                         Inl e \<Rightarrow> []
                       | Inr es \<Rightarrow> List.map_filter (extractGradeData newDate) es))
               else [])"
  using assms
  by (simp add: scrapeGrades_def pageClickAndWait_def collect_map_filter
      split: sum.splits bool.splits)

lemma scrapeFiles_elements:
  assumes "page st = Some d"
  shows "scrapeFiles st =
      Inr (case queryAll d fileSelector of
             Inl e \<Rightarrow> [] | Inr es \<Rightarrow> List.map_filter extractFileData es)"
  using assms by (simp add: scrapeFiles_def collect_map_filter split: sum.splits)

lemma scrapeZybookIntegrations_elements:
  assumes "page st = Some d"
  shows "scrapeZybookIntegrations newDate st =
      Inr (case queryAll d zybookSelector of
             Inl e \<Rightarrow> [] | Inr es \<Rightarrow> List.map_filter (extractZybookData newDate) es)"
  using assms by (simp add: scrapeZybookIntegrations_def collect_map_filter split: sum.splits)

text \<open>
  Claim C5. On a scraper with a page, none of the four scrape methods returns an error,
  and the result of each is determined element by element:

  \<^item> the result is the list, in the order of the page, of the records that the extraction
    helper returns for the elements that the lookup has found (for the grades: that the
    lookup on the gradebook page has found); it is empty when the lookup fails and, for
    the grades, when there is no gradebook link or the click on it fails;
  \<^item> an element whose access throws gives \<open>null\<close> in every helper (and in
    \<open>extractAssignment\<close>);
  \<^item> so a failed element is left out and the elements before and after it are extracted
    as without it (the assignments after it keep their numbers), and when every element
    fails, or there is none, the result is the empty list.
\<close>

theorem scrape_skips_failed_elements:
  assumes "page st = Some d"
  shows
   "scrapeAssignments newDate randoms st =
      Inr (case queryAll d assignmentSelector of
             Inl e \<Rightarrow> []
           | Inr es \<Rightarrow>
               List.map_filter (\<lambda>(i, element). extractAssignmentData newDate (randoms i) element)
                 (List.enumerate 0 es)) \<and>
    fst (scrapeGrades h newDate st) =
      Inr (case query d gradesLinkSelector of
             Inl e \<Rightarrow> []
           | Inr found \<Rightarrow>
               if found then
                 (case clickAndWait h gradesLinkSelector of
                    Inl e \<Rightarrow> []
                  | Inr d' \<Rightarrow>
                      (case queryAll d' gradeRowSelector of
                         Inl e \<Rightarrow> []
                       | Inr es \<Rightarrow> List.map_filter (extractGradeData newDate) es))
               else []) \<and>
    scrapeFiles st =
      Inr (case queryAll d fileSelector of
             Inl e \<Rightarrow> [] | Inr es \<Rightarrow> List.map_filter extractFileData es) \<and>
    scrapeZybookIntegrations newDate st =
      Inr (case queryAll d zybookSelector of
             Inl e \<Rightarrow> [] | Inr es \<Rightarrow> List.map_filter (extractZybookData newDate) es) \<and>
    extractAssignment newDate r (Detached err) = None \<and>
    extractAssignmentData newDate r (Detached err) = None \<and>
    extractGradeData newDate (Detached err) = None \<and>
    extractFileData (Detached err) = None \<and>
    extractZybookData newDate (Detached err) = None \<and>
    (\<forall>es1 es2. queryAll d assignmentSelector = Inr (es1 @ Detached err # es2) \<longrightarrow>
       scrapeAssignments newDate randoms st =
         Inr (List.map_filter (\<lambda>(i, element). extractAssignmentData newDate (randoms i) element)
                (List.enumerate 0 es1 @ List.enumerate (Suc (length es1)) es2))) \<and>
    (\<forall>d' es1 es2. query d gradesLinkSelector = Inr True \<and>
       clickAndWait h gradesLinkSelector = Inr d' \<and>
       queryAll d' gradeRowSelector = Inr (es1 @ Detached err # es2) \<longrightarrow>
       fst (scrapeGrades h newDate st) =
         Inr (List.map_filter (extractGradeData newDate) (es1 @ es2))) \<and>
    (\<forall>es1 es2. queryAll d fileSelector = Inr (es1 @ Detached err # es2) \<longrightarrow>
       scrapeFiles st = Inr (List.map_filter extractFileData (es1 @ es2))) \<and>
    (\<forall>es1 es2. queryAll d zybookSelector = Inr (es1 @ Detached err # es2) \<longrightarrow>
       scrapeZybookIntegrations newDate st =
         Inr (List.map_filter (extractZybookData newDate) (es1 @ es2))) \<and>
    (\<forall>es. queryAll d assignmentSelector = Inr es \<and> (\<forall>e\<in>set es. \<exists>x. e = Detached x) \<longrightarrow>
       scrapeAssignments newDate randoms st = Inr []) \<and>
    (\<forall>d' es. query d gradesLinkSelector = Inr True \<and> clickAndWait h gradesLinkSelector = Inr d' \<and>
       queryAll d' gradeRowSelector = Inr es \<and> (\<forall>e\<in>set es. \<exists>x. e = Detached x) \<longrightarrow>
       fst (scrapeGrades h newDate st) = Inr []) \<and>
    (\<forall>es. queryAll d fileSelector = Inr es \<and> (\<forall>e\<in>set es. \<exists>x. e = Detached x) \<longrightarrow>
       scrapeFiles st = Inr []) \<and>
    (\<forall>es. queryAll d zybookSelector = Inr es \<and> (\<forall>e\<in>set es. \<exists>x. e = Detached x) \<longrightarrow>
       scrapeZybookIntegrations newDate st = Inr [])"
proof -
  note n = detached_null [of newDate _ err]
  note A = scrapeAssignments_elements [OF assms, of newDate randoms]
  note G = scrapeGrades_elements [OF assms, of h newDate]
  note F = scrapeFiles_elements [OF assms]
  note Z = scrapeZybookIntegrations_elements [OF assms, of newDate]
  have s1: "\<forall>es1 es2. queryAll d assignmentSelector = Inr (es1 @ Detached err # es2) \<longrightarrow>
       scrapeAssignments newDate randoms st =
         Inr (List.map_filter (\<lambda>(i, element). extractAssignmentData newDate (randoms i) element)
                (List.enumerate 0 es1 @ List.enumerate (Suc (length es1)) es2))"
    using n by (simp add: A enumerate_append_eq map_filter_append List.map_filter_simps)
  have s2: "\<forall>d' es1 es2. query d gradesLinkSelector = Inr True \<and>
       clickAndWait h gradesLinkSelector = Inr d' \<and>
       queryAll d' gradeRowSelector = Inr (es1 @ Detached err # es2) \<longrightarrow>
       fst (scrapeGrades h newDate st) =
         Inr (List.map_filter (extractGradeData newDate) (es1 @ es2))"
    using n by (simp add: G map_filter_append List.map_filter_simps)
  have s3: "\<forall>es1 es2. queryAll d fileSelector = Inr (es1 @ Detached err # es2) \<longrightarrow>
       scrapeFiles st = Inr (List.map_filter extractFileData (es1 @ es2))"
    using n by (simp add: F map_filter_append List.map_filter_simps)
  have s4: "\<forall>es1 es2. queryAll d zybookSelector = Inr (es1 @ Detached err # es2) \<longrightarrow>
       scrapeZybookIntegrations newDate st =
         Inr (List.map_filter (extractZybookData newDate) (es1 @ es2))"
    using n by (simp add: Z map_filter_append List.map_filter_simps)
  have a1: "\<forall>es. queryAll d assignmentSelector = Inr es \<and> (\<forall>e\<in>set es. \<exists>x. e = Detached x) \<longrightarrow>
       scrapeAssignments newDate randoms st = Inr []"
  proof (intro allI impI)
    fix es
    assume a: "queryAll d assignmentSelector = Inr es \<and> (\<forall>e\<in>set es. \<exists>x. e = Detached x)"
    have "\<forall>p\<in>set (List.enumerate 0 es).
            (\<lambda>(i, element). extractAssignmentData newDate (randoms i) element) p = None"
    proof
      fix p assume m: "p \<in> set (List.enumerate 0 es)"
      have "set es = snd ` set (List.enumerate 0 es)" by (metis map_snd_enumerate set_map)
      then have "snd p \<in> set es" using m by simp
      then obtain x where "snd p = Detached x" using a by blast
      then show "(\<lambda>(i, element). extractAssignmentData newDate (randoms i) element) p = None"
        by (cases p) (simp add: extractAssignmentData_def)
    qed
    then show "scrapeAssignments newDate randoms st = Inr []"
      using a by (simp add: A map_filter_all_None)
  qed
  have a2: "\<forall>d' es. query d gradesLinkSelector = Inr True \<and> clickAndWait h gradesLinkSelector = Inr d' \<and>
       queryAll d' gradeRowSelector = Inr es \<and> (\<forall>e\<in>set es. \<exists>x. e = Detached x) \<longrightarrow>
       fst (scrapeGrades h newDate st) = Inr []"
    by (auto simp: G extractGradeData_def intro!: map_filter_all_None)
  have a3: "\<forall>es. queryAll d fileSelector = Inr es \<and> (\<forall>e\<in>set es. \<exists>x. e = Detached x) \<longrightarrow>
       scrapeFiles st = Inr []"
    by (auto simp: F extractFileData_def intro!: map_filter_all_None)
  have a4: "\<forall>es. queryAll d zybookSelector = Inr es \<and> (\<forall>e\<in>set es. \<exists>x. e = Detached x) \<longrightarrow>
       scrapeZybookIntegrations newDate st = Inr []"
    by (auto simp: Z extractZybookData_def intro!: map_filter_all_None)
  show ?thesis
    using A G F Z n [of r] s1 s2 s3 s4 a1 a2 a3 a4 by (intro conjI) blast+
qed

text \<open>
  The theorem at a course page with three assignment links of which the first and the last
  are detached (the second one is extracted), at one whose two links are both detached, at
  one without links, and at a gradebook with three rows of which the first and the last are
  detached.
\<close>

theorem scrape_skips_failed_elements_witness:
  "scrapeAssignments utcDate (\<lambda>i. str ''0.5'')
     (openedOn (listing assignmentSelector
        [Detached (Error (str ''Element not attached to DOM'')),
         Attached (assignmentLink (str ''Homework 1'')
                     (str ''https://test-moodle.com/mod/assign/view.php?id=7'')),
         Detached (Error (str ''Element not attached to DOM''))])) =
     Inr [\<lparr>a_id = str ''7'', a_title = str ''Homework 1'', a_description = [],
           a_dueDate = None, a_submissionStatus = not_submitted, a_maxGrade = Num 0,
           a_currentGrade = None,
           a_url = str ''https://test-moodle.com/mod/assign/view.php?id=7''\<rparr>] \<and>
   scrapeAssignments utcDate (\<lambda>i. str ''0.5'')
     (openedOn (listing assignmentSelector
        [Detached (Error (str ''Element not attached to DOM'')),
         Detached (Error (str ''Element not attached to DOM''))])) = Inr [] \<and>
   scrapeAssignments utcDate (\<lambda>i. str ''0.5'') (openedOn (listing assignmentSelector [])) =
     Inr [] \<and>
   fst (scrapeGrades
          (gradebookSite [Detached (Error (str ''Element not attached to DOM'')),
                          Attached (gradeRow (str ''85'') (str ''100'')),
                          Detached (Error (str ''Element not attached to DOM''))])
          utcDate (openedOn gradebookLinkPage)) =
     Inr [\<lparr>g_itemName = Some (str ''Unknown Item''), g_grade = str ''85'',
           g_maxGrade = str ''100'', g_percentage = Some (Num 85), g_feedback = None,
           g_dateModified = None\<rparr>]"
proof -
  let ?x = "Detached (Error (str ''Element not attached to DOM''))"
  let ?a = "Attached (assignmentLink (str ''Homework 1'')
                     (str ''https://test-moodle.com/mod/assign/view.php?id=7''))"
  let ?g = "Attached (gradeRow (str ''85'') (str ''100''))"
  let ?r = "\<lambda>i::nat. str ''0.5''"
  have p: "\<And>d. page (openedOn d) = Some d" by (simp add: openedOn_def)
  have q: "\<And>es. queryAll (listing assignmentSelector es) assignmentSelector = Inr es"
    by (simp add: listing_def)
  have ea: "extractAssignmentData utcDate (str ''0.5'') ?a =
     Some \<lparr>a_id = str ''7'', a_title = str ''Homework 1'', a_description = [],
           a_dueDate = None, a_submissionStatus = not_submitted, a_maxGrade = Num 0,
           a_currentGrade = None,
           a_url = str ''https://test-moodle.com/mod/assign/view.php?id=7''\<rparr>"
    by (simp add: extractAssignmentData_def element_defs string_defs pattern_defs
        dueDateData_def statusOf_def)
  have eg: "extractGradeData utcDate ?g =
     Some \<lparr>g_itemName = Some (str ''Unknown Item''), g_grade = str ''85'',
           g_maxGrade = str ''100'', g_percentage = Some (Num 85), g_feedback = None,
           g_dateModified = None\<rparr>"
    by (simp add: extractGradeData_def element_defs string_defs pattern_defs percentageOf_def
        parseFloat_def digitsValue_def round64_85 round64_100 ratio_85_100
        del: numDivide.simps numTimes.simps)
  have x: "extractAssignmentData utcDate (str ''0.5'') ?x = None"
          "extractGradeData utcDate ?x = None"
    by (simp_all add: extractAssignmentData_def extractGradeData_def)
  have 1: "scrapeAssignments utcDate ?r (openedOn (listing assignmentSelector [?x, ?a, ?x])) =
     Inr [\<lparr>a_id = str ''7'', a_title = str ''Homework 1'', a_description = [],
           a_dueDate = None, a_submissionStatus = not_submitted, a_maxGrade = Num 0,
           a_currentGrade = None,
           a_url = str ''https://test-moodle.com/mod/assign/view.php?id=7''\<rparr>]"
    using scrape_skips_failed_elements [OF p [of "listing assignmentSelector [?x, ?a, ?x]"],
        where newDate = utcDate and randoms = ?r and h = offlineHost and r = "[]" and
          err = "Error []", THEN conjunct1]
    by (simp add: q List.map_filter_simps ea x)
  have "queryAll (listing assignmentSelector [?x, ?x]) assignmentSelector = Inr [?x, ?x] \<and>
        (\<forall>e\<in>set [?x, ?x]. \<exists>x. e = Detached x)" by (simp add: q)
  then have 2: "scrapeAssignments utcDate ?r (openedOn (listing assignmentSelector [?x, ?x])) = Inr []"
    using scrape_skips_failed_elements [OF p [of "listing assignmentSelector [?x, ?x]"],
        where newDate = utcDate and randoms = ?r and h = offlineHost and r = "[]" and
          err = "Error []"]
    by blast
  have "queryAll (listing assignmentSelector []) assignmentSelector = Inr [] \<and>
        (\<forall>e\<in>set []. \<exists>x. e = Detached x)" by (simp add: q)
  then have 3: "scrapeAssignments utcDate ?r (openedOn (listing assignmentSelector [])) = Inr []"
    using scrape_skips_failed_elements [OF p [of "listing assignmentSelector []"],
        where newDate = utcDate and randoms = ?r and h = offlineHost and r = "[]" and
          err = "Error []"]
    by blast
  have 4: "fst (scrapeGrades (gradebookSite [?x, ?g, ?x]) utcDate (openedOn gradebookLinkPage)) =
     Inr [\<lparr>g_itemName = Some (str ''Unknown Item''), g_grade = str ''85'',
           g_maxGrade = str ''100'', g_percentage = Some (Num 85), g_feedback = None,
           g_dateModified = None\<rparr>]"
    using scrape_skips_failed_elements [OF p [of gradebookLinkPage],
        where newDate = utcDate and randoms = ?r and h = "gradebookSite [?x, ?g, ?x]" and
          r = "[]" and err = "Error []", THEN conjunct2, THEN conjunct1]
    by (simp add: gradebookLinkPage_def gradebookSite_def listing_def
        List.map_filter_simps eg x)
  show ?thesis using 1 2 3 4 by (intro conjI)
qed

end
